theory Spec2Isabelle
  imports Complex_Main
begin

section \<open>Python values and string helpers\<close>

text \<open>
  Decoded JSON values, as \<^verbatim>\<open>json.load\<close> and \<^verbatim>\<open>response.json()\<close> produce them, and
  the values a result dictionary holds under a key. A dictionary is an association
  list in insertion order; a lookup takes the first binding of a key.
\<close>

datatype pyval =
    PNone
  | PBool bool
  | PInt int
  | PFloat real
  | PStr string
  | PList "pyval list"
  | PDict "(string \<times> pyval) list"

text \<open>\<^verbatim>\<open>s.startswith(p)\<close> and the substring test \<^verbatim>\<open>p in s\<close> on strings.\<close>

fun startswith :: "string \<Rightarrow> string \<Rightarrow> bool" where
  "startswith s [] = True"
| "startswith [] (p # ps) = False"
| "startswith (c # cs) (p # ps) = (c = p \<and> startswith cs ps)"

fun contains :: "string \<Rightarrow> string \<Rightarrow> bool" where
  "contains [] p = (p = [])"
| "contains (c # cs) p = (startswith (c # cs) p \<or> contains cs p)"

section \<open>The orchestrator's tally (validate\_production\_readiness.py)\<close>

text \<open>
  A test is a dictionary. The orchestrator reads it with \<^verbatim>\<open>test.get("status")\<close>,
  \<^verbatim>\<open>test.get("passed")\<close>, \<^verbatim>\<open>test.get("name", "")\<close> and \<^verbatim>\<open>test.get("message", "")\<close>, so an
  absent \<open>status\<close> or \<open>passed\<close> key reads as \<open>PNone\<close> and an absent name or message as
  the empty string; \<open>remediation\<close> is the key the tally may add.
\<close>

record test =
  name :: string
  status :: pyval
  passed :: pyval
  message :: string
  remediation :: "string option"

text \<open>The four counters of \<^verbatim>\<open>ProductionValidator\<close> and its start time.\<close>

record validator =
  start_time :: real
  passed_tests :: int
  failed_tests :: int
  warning_tests :: int
  total_tests :: int

definition init_validator :: "real \<Rightarrow> validator" where
  "init_validator t0 =
     \<lparr>start_time = t0, passed_tests = 0, failed_tests = 0, warning_tests = 0, total_tests = 0\<rparr>"

definition advice_map :: "(string \<times> string) list" where
  "advice_map =
    [(''Database Table check'',
        ''Initialize database schema using the migration system or setup scripts.''),
     (''Production log level'',
        ''Set LOG_LEVEL to INFO or WARN in production environment configuration.''),
     (''JSON log format verification'',
        ''Configure a JSON formatter (e.g. python-json-logger) for easier log aggregation.''),
     (''SLA Response time'',
        ''Investigate bottleneck using a profiler. Consider caching, indexing, or horizontal scaling.''),
     (''Critical security header'',
        ''Add the missing header in your web server (Nginx/Apache) or application middleware.''),
     (''Dockerfile best practices'',
        ''Review the Dockerfile to use specific version tags, non-root users, and multi-stage builds.''),
     (''PII and Secret Scan'',
        ''Ensure secrets are not logged and implement log masking for sensitive data.''),
     (''Schema validation'',
        ''Verify that API response body matches the contract. Update models or documentation.''),
     (''Tracking ID support'',
        ''Ensure 'X-Request-ID' is accepted and echoed in responses for distributed tracing.'')]"

fun first_advice :: "(string \<times> string) list \<Rightarrow> string \<Rightarrow> string" where
  "first_advice [] test_name =
     ''Refer to internal architectural standards for production readiness.''"
| "first_advice ((key, advice) # rest) test_name =
     (if contains test_name key then advice else first_advice rest test_name)"

definition get_remediation :: "string \<Rightarrow> string \<Rightarrow> string" where
  "get_remediation test_name msg = first_advice advice_map test_name"

text \<open>The body of the loop of \<^verbatim>\<open>_update_test_counts\<close>, for one test.\<close>

definition count_test :: "validator \<Rightarrow> test \<Rightarrow> validator \<times> test" where
  "count_test v t =
     (let v1 = v\<lparr>total_tests := total_tests v + 1\<rparr> in
      if status t = PStr ''PASS'' \<or> passed t = PBool True then
        (v1\<lparr>passed_tests := passed_tests v1 + 1\<rparr>, t)
      else if status t = PStr ''FAIL'' \<or> passed t = PBool False then
        (v1\<lparr>failed_tests := failed_tests v1 + 1\<rparr>,
         t\<lparr>remediation := Some (get_remediation (name t) (message t))\<rparr>)
      else if status t = PStr ''WARNING'' then
        (v1\<lparr>warning_tests := warning_tests v1 + 1\<rparr>,
         t\<lparr>remediation := Some (get_remediation (name t) (message t))\<rparr>)
      else (v1, t))"

fun update_test_counts :: "validator \<Rightarrow> test list \<Rightarrow> validator \<times> test list" where
  "update_test_counts v [] = (v, [])"
| "update_test_counts v (t # ts) =
     (case count_test v t of (v1, t1) \<Rightarrow>
        (case update_test_counts v1 ts of (v2, ts1) \<Rightarrow> (v2, t1 # ts1)))"

text \<open>
  One run is a sequence of calls of \<^verbatim>\<open>_update_test_counts\<close> on a fresh validator, one
  call per test list handed over by a checker.
\<close>

fun tally :: "validator \<Rightarrow> test list list \<Rightarrow> validator" where
  "tally v [] = v"
| "tally v (ts # tss) = tally (fst (update_test_counts v ts)) tss"

text \<open>
  What the enabled checkers returned. The API result holds one test list per endpoint
  and the deployment result one per section; the others hold one list.
\<close>

record checker_outputs =
  env_tests :: "test list"
  security_tests :: "test list"
  load_test_tests :: "test list"
  api_endpoint_tests :: "test list list"
  database_tests :: "test list"
  deployment_section_tests :: "test list list"
  logging_tests :: "test list"
  monitoring_tests :: "test list"

definition section_calls ::
  "string list \<Rightarrow> string \<Rightarrow> test list list \<Rightarrow> test list list" where
  "section_calls validate_sections key calls = (if key \<in> set validate_sections then calls else [])"

definition calls_of :: "string list \<Rightarrow> checker_outputs \<Rightarrow> test list list" where
  "calls_of validate_sections out =
     section_calls validate_sections ''env_config'' [env_tests out] @
     section_calls validate_sections ''security'' [security_tests out] @
     section_calls validate_sections ''performance'' [load_test_tests out] @
     section_calls validate_sections ''api_endpoints'' (api_endpoint_tests out) @
     section_calls validate_sections ''database'' [database_tests out] @
     section_calls validate_sections ''deployment'' (deployment_section_tests out) @
     section_calls validate_sections ''logging'' [logging_tests out] @
     section_calls validate_sections ''monitoring'' [monitoring_tests out]"

datatype py_exception =
    ZeroDivisionError
  | IndexError
  | TypeError string
  | ValueError string
  | RequestException string
  | OtherException string

text \<open>Python's true division of two integers: it raises on a zero divisor.\<close>

definition py_truediv :: "int \<Rightarrow> int \<Rightarrow> py_exception + real" where
  "py_truediv a b = (if b = 0 then Inl ZeroDivisionError else Inr (real_of_int a / real_of_int b))"

record summary =
  summary_start_time :: real
  duration_seconds :: real
  tests_passed :: int
  tests_failed :: int
  tests_warned :: int
  summary_total_tests :: int
  pass_percentage :: real
  production_ready :: bool

text \<open>
  \<^verbatim>\<open>_add_summary\<close>; \<open>now\<close> is the value of \<^verbatim>\<open>time.time()\<close> at the call. The conditional
  expression evaluates the division only when \<open>total_tests > 0\<close>.
\<close>

definition add_summary :: "validator \<Rightarrow> real \<Rightarrow> py_exception + summary" where
  "add_summary v now =
     (case (if total_tests v > 0
            then (case py_truediv (passed_tests v) (total_tests v) of
                    Inl e \<Rightarrow> Inl e | Inr q \<Rightarrow> Inr (q * 100))
            else Inr 0) of
        Inl e \<Rightarrow> Inl e
      | Inr pct \<Rightarrow>
          Inr \<lparr>summary_start_time = start_time v,
               duration_seconds = now - start_time v,
               tests_passed = passed_tests v,
               tests_failed = failed_tests v,
               tests_warned = warning_tests v,
               summary_total_tests = total_tests v,
               pass_percentage = pct,
               production_ready = (failed_tests v = 0)\<rparr>)"

text \<open>\<^verbatim>\<open>run_validations\<close>: the enabled sections in their fixed order, then the summary.\<close>

definition run_validations ::
  "real \<Rightarrow> string list \<Rightarrow> checker_outputs \<Rightarrow> real \<Rightarrow> py_exception + summary" where
  "run_validations t0 validate_sections out now =
     add_summary (tally (init_validator t0) (calls_of validate_sections out)) now"

text \<open>How the chain of conditions in the tally classifies one test.\<close>

definition counts_as_pass :: "test \<Rightarrow> bool" where
  "counts_as_pass t \<longleftrightarrow> status t = PStr ''PASS'' \<or> passed t = PBool True"

definition counts_as_fail :: "test \<Rightarrow> bool" where
  "counts_as_fail t \<longleftrightarrow> \<not> counts_as_pass t \<and> (status t = PStr ''FAIL'' \<or> passed t = PBool False)"

definition counts_as_warning :: "test \<Rightarrow> bool" where
  "counts_as_warning t \<longleftrightarrow>
     \<not> counts_as_pass t \<and> \<not> counts_as_fail t \<and> status t = PStr ''WARNING''"

definition unclassified :: "test \<Rightarrow> bool" where
  "unclassified t \<longleftrightarrow>
     status t \<noteq> PStr ''PASS'' \<and> status t \<noteq> PStr ''FAIL'' \<and> status t \<noteq> PStr ''WARNING'' \<and>
     passed t \<noteq> PBool True \<and> passed t \<noteq> PBool False"

text \<open>Sample tests in the two shapes the checkers emit.\<close>

definition pass_test :: test where
  "pass_test = \<lparr>name = ''Section check'', status = PStr ''PASS'', passed = PNone,
                 message = ''ok'', remediation = None\<rparr>"

definition fail_test :: test where
  "fail_test = \<lparr>name = ''Status code check'', status = PNone, passed = PBool False,
                 message = ''Expected 200, got 500'', remediation = None\<rparr>"

definition warning_test :: test where
  "warning_test = \<lparr>name = ''Production database check'', status = PStr ''WARNING'',
                    passed = PNone, message = ''SQLite'', remediation = None\<rparr>"

definition skipped_test :: test where
  "skipped_test = \<lparr>name = ''Skipped check'', status = PStr ''SKIP'',
                    passed = PNone, message = [], remediation = None\<rparr>"

section \<open>HTTP replies and the Python runtime\<close>

text \<open>
  What a call of \<^verbatim>\<open>requests\<close> gives back: a response, with the milliseconds the caller
  measured around the call, or an exception. \<open>json_body\<close> is the value of
  \<^verbatim>\<open>response.json()\<close>, \<open>None\<close> when that call raises.
\<close>

record response =
  status_code :: int
  headers :: "(string \<times> string) list"
  json_body :: "pyval option"
  body_text :: string

datatype reply = Replied response real | Failed py_exception

text \<open>
  Formatting of floats is left to the runtime: \<open>format_fixed d x\<close> is \<^verbatim>\<open>f"{x:.df}"\<close> and
  \<open>str_float x\<close> is \<^verbatim>\<open>str(x)\<close>.
\<close>

record py_runtime =
  format_fixed :: "nat \<Rightarrow> real \<Rightarrow> string"
  str_float :: "real \<Rightarrow> string"

definition str_exception :: "py_exception \<Rightarrow> string" where
  "str_exception e =
     (case e of
        ZeroDivisionError \<Rightarrow> ''division by zero''
      | IndexError \<Rightarrow> ''list index out of range''
      | TypeError m \<Rightarrow> m
      | ValueError m \<Rightarrow> m
      | RequestException m \<Rightarrow> m
      | OtherException m \<Rightarrow> m)"

definition digit_char :: "nat \<Rightarrow> char" where
  "digit_char d = ''0123456789'' ! d"

function str_nat :: "nat \<Rightarrow> string" where
  "str_nat n = (if n < 10 then [digit_char n] else str_nat (n div 10) @ [digit_char (n mod 10)])"
  by pat_completeness auto
termination
  by (relation "measure id") auto

declare str_nat.simps [simp del]

definition str_int :: "int \<Rightarrow> string" where
  "str_int i = (if i < 0 then CHR ''-'' # str_nat (nat (- i)) else str_nat (nat i))"

definition rstrip :: "char \<Rightarrow> string \<Rightarrow> string" where
  "rstrip c s = rev (dropWhile (\<lambda>x. x = c) (rev s))"

definition status_test :: "string \<Rightarrow> string \<Rightarrow> string \<Rightarrow> test" where
  "status_test n st msg =
     \<lparr>name = n, status = PStr st, passed = PNone, message = msg, remediation = None\<rparr>"

section \<open>The load tester (performance\_tests/load\_tester.py)\<close>

text \<open>Indexing a list as Python does: a negative index counts from the end.\<close>

definition py_index :: "'a list \<Rightarrow> int \<Rightarrow> py_exception + 'a" where
  "py_index xs i =
     (if 0 \<le> i \<and> i < int (length xs) then Inr (xs ! nat i)
      else if i < 0 \<and> - int (length xs) \<le> i then Inr (xs ! nat (int (length xs) + i))
      else Inl IndexError)"

text \<open>\<^verbatim>\<open>int(x)\<close> on a float truncates towards zero.\<close>

definition py_int_of_float :: "real \<Rightarrow> int" where
  "py_int_of_float x = (if 0 \<le> x then \<lfloor>x\<rfloor> else \<lceil>x\<rceil>)"

definition get_percentile :: "real list \<Rightarrow> real \<Rightarrow> py_exception + real" where
  "get_percentile data percentile =
     (if data = [] then Inr 0
      else
        let sorted_data = sort data; n = int (length sorted_data) in
        if n = 1 then py_index sorted_data 0
        else
          let idx = real_of_int (n - 1) * (percentile / 100);
              lower = py_int_of_float idx;
              upper = lower + 1;
              weight = idx - real_of_int lower
          in if upper \<ge> n then py_index sorted_data lower
             else (case py_index sorted_data lower of
                     Inl e \<Rightarrow> Inl e
                   | Inr lo \<Rightarrow>
                       (case py_index sorted_data upper of
                          Inl e \<Rightarrow> Inl e
                        | Inr hi \<Rightarrow> Inr (lo * (1 - weight) + hi * weight))))"

text \<open>\<^verbatim>\<open>statistics.mean\<close>, \<^verbatim>\<open>statistics.median\<close> and \<^verbatim>\<open>statistics.stdev\<close> on a non-empty list.\<close>

definition mean :: "real list \<Rightarrow> real" where
  "mean xs = sum_list xs / real (length xs)"

definition median :: "real list \<Rightarrow> real" where
  "median xs =
     (let s = sort xs; n = length s
      in if odd n then s ! (n div 2) else (s ! (n div 2 - 1) + s ! (n div 2)) / 2)"

definition stdev :: "real list \<Rightarrow> real" where
  "stdev xs = sqrt (sum_list (map (\<lambda>x. (x - mean xs)\<^sup>2) xs) / real (length xs - 1))"

record statistics =
  min_response_time :: real
  max_response_time :: real
  avg_response_time :: real
  std_dev :: real
  median_response_time :: real
  p95_response_time :: real
  p99_response_time :: real

text \<open>The statistics keys, set only when there is a response time.\<close>

definition compute_statistics :: "real list \<Rightarrow> py_exception + statistics option" where
  "compute_statistics ts =
     (if ts = [] then Inr None
      else
        (case get_percentile ts 95 of
           Inl e \<Rightarrow> Inl e
         | Inr p95 \<Rightarrow>
             (case get_percentile ts 99 of
                Inl e \<Rightarrow> Inl e
              | Inr p99 \<Rightarrow>
                  Inr (Some \<lparr>min_response_time = fold min (tl ts) (hd ts),
                             max_response_time = fold max (tl ts) (hd ts),
                             avg_response_time = mean ts,
                             std_dev = (if length ts > 1 then stdev ts else 0),
                             median_response_time = median ts,
                             p95_response_time = p95,
                             p99_response_time = p99\<rparr>))))"

datatype load_error =
    StatusError string int string
  | RequestError string string

record worker_results =
  requests :: int
  successful :: int
  failed :: int
  response_times :: "real list"
  errors :: "load_error list"
  stats :: "statistics option"

definition init_results :: worker_results where
  "init_results =
     \<lparr>requests = 0, successful = 0, failed = 0, response_times = [], errors = [], stats = None\<rparr>"

text \<open>
  One pass through the body of the inner loop: the \<^verbatim>\<open>try\<close> block around
  \<^verbatim>\<open>requests.get\<close>. Only a \<^verbatim>\<open>RequestException\<close> is caught.
\<close>

definition attempt :: "string \<Rightarrow> reply \<Rightarrow> worker_results \<Rightarrow> py_exception + worker_results" where
  "attempt url rep r =
     (case rep of
        Replied resp response_time \<Rightarrow>
          (let r1 = r\<lparr>requests := requests r + 1,
                       response_times := response_times r @ [response_time]\<rparr>
           in if status_code resp < 400 then Inr (r1\<lparr>successful := successful r1 + 1\<rparr>)
              else Inr (r1\<lparr>failed := failed r1 + 1,
                          errors := errors r1 @
                            [StatusError url (status_code resp) (take 200 (body_text resp))]\<rparr>))
      | Failed (RequestException m) \<Rightarrow>
          Inr (r\<lparr>requests := requests r + 1, failed := failed r + 1,
                 errors := errors r @ [RequestError url m]\<rparr>)
      | Failed e \<Rightarrow> Inl e)"

text \<open>
  The environment of one worker. Each evaluation of \<^verbatim>\<open>time.time() < end_time\<close> takes the
  next entry of \<open>deadline_checks\<close>; once the list is used up the deadline has passed.
  \<open>replies k\<close> is the outcome of the worker's \<open>k\<close>-th call of \<^verbatim>\<open>requests.get\<close>.
\<close>

record worker_world =
  deadline_checks :: "bool list"
  replies :: "nat \<Rightarrow> reply"

type_synonym worker_state = "bool list \<times> nat \<times> worker_results"

text \<open>The \<^verbatim>\<open>for endpoint in self.endpoints\<close> loop, with its \<^verbatim>\<open>break\<close>.\<close>

fun run_endpoints ::
  "string \<Rightarrow> (nat \<Rightarrow> reply) \<Rightarrow> string list \<Rightarrow> worker_state \<Rightarrow> py_exception + worker_state" where
  "run_endpoints base net [] st = Inr st"
| "run_endpoints base net (endpoint # rest) (checks, k, r) =
     (case attempt (base @ endpoint) (net k) r of
        Inl e \<Rightarrow> Inl e
      | Inr r1 \<Rightarrow>
          (case checks of
             [] \<Rightarrow> Inr ([], Suc k, r1)
           | c # cs \<Rightarrow>
               if c then run_endpoints base net rest (cs, Suc k, r1)
               else Inr (cs, Suc k, r1)))"

lemma run_endpoints_checks:
  "run_endpoints base net eps (checks, k, r) = Inr (checks', k', r') \<Longrightarrow>
     length checks' \<le> length checks"
proof (induction eps arbitrary: checks k r)
  case Nil
  then show ?case by simp
next
  case (Cons e eps)
  then show ?case
    by (fastforce split: sum.splits list.splits if_splits)
qed

text \<open>The \<^verbatim>\<open>while time.time() < end_time\<close> loop.\<close>

function run_while ::
  "string \<Rightarrow> (nat \<Rightarrow> reply) \<Rightarrow> string list \<Rightarrow> worker_state \<Rightarrow> py_exception + worker_results" where
  "run_while base net eps ([], k, r) = Inr r"
| "run_while base net eps (c # cs, k, r) =
     (if c then
        (case run_endpoints base net eps (cs, k, r) of
           Inl e \<Rightarrow> Inl e
         | Inr st \<Rightarrow> run_while base net eps st)
      else Inr r)"
  by pat_completeness auto
termination
proof (relation "measure (\<lambda>(base, net, eps, checks, k, r). length checks)")
  show "wf (measure (\<lambda>(base, net, eps, checks, k, r). length checks))"
    by simp
next
  fix base net eps c cs k r st
  assume "c" and "run_endpoints base net eps (cs, k, r) = Inr st"
  then show "((base, net, eps, st), (base, net, eps, c # cs, k, r))
               \<in> measure (\<lambda>(base, net, eps, checks, k, r). length checks)"
    using run_endpoints_checks [of base net eps cs k r "fst st" "fst (snd st)" "snd (snd st)"]
    by (cases st) auto
qed

text \<open>\<^verbatim>\<open>LoadTestWorker.run\<close>: the loops, then the statistics.\<close>

definition worker_run :: "string \<Rightarrow> string list \<Rightarrow> worker_world \<Rightarrow> py_exception + worker_results" where
  "worker_run base_url endpoints w =
     (case run_while (rstrip CHR ''/'' base_url) (replies w) endpoints
             (deadline_checks w, 0, init_results) of
        Inl e \<Rightarrow> Inl e
      | Inr r \<Rightarrow>
          (case compute_statistics (response_times r) of
             Inl e \<Rightarrow> Inl e
           | Inr s \<Rightarrow> Inr (r\<lparr>stats := s\<rparr>)))"


text \<open>
  \<^verbatim>\<open>discover_endpoints\<close> of the load tester: a \<^verbatim>\<open>HEAD\<close> probe of each common path, keeping
  the paths that answer with a status below 400; any exception of a probe is swallowed.
\<close>

definition load_common_paths :: "string list" where
  "load_common_paths =
     [''/api'', ''/api/v1'', ''/api/health'', ''/api/status'', ''/health'', ''/status'',
      ''/api/users'', ''/api/customers'', ''/api/products'']"

fun probe_below_400 :: "(string \<Rightarrow> reply) \<Rightarrow> string \<Rightarrow> string list \<Rightarrow> string list" where
  "probe_below_400 head_reply base [] = []"
| "probe_below_400 head_reply base (path # paths) =
     (case head_reply (base @ path) of
        Replied resp t \<Rightarrow>
          if status_code resp < 400 then path # probe_below_400 head_reply base paths
          else probe_below_400 head_reply base paths
      | Failed e \<Rightarrow> probe_below_400 head_reply base paths)"

definition discover_endpoints :: "(string \<Rightarrow> reply) \<Rightarrow> string \<Rightarrow> string list" where
  "discover_endpoints head_reply base_url =
     (let discovered = probe_below_400 head_reply (rstrip CHR ''/'' base_url) load_common_paths
      in if discovered = [] then [''/''] else discovered)"

record load_metrics = worker_results +
  throughput :: real
  success_rate :: real

record load_test_results =
  lt_passed :: bool
  lt_total :: int
  lt_passed_tests :: int
  lt_tests :: "test list"
  lt_metrics :: "load_metrics option"
  lt_error :: "string option"

text \<open>
  The environment of a load test: the reply to the first \<^verbatim>\<open>GET\<close> of the base URL, the
  replies to the discovery probes by URL, and the environment of each worker. The
  workers are numbered in the order in which they complete.
\<close>

record load_world =
  base_reply :: reply
  head_reply :: "string \<Rightarrow> reply"
  worker_worlds :: "nat \<Rightarrow> worker_world"

text \<open>The results of the workers that returned; a worker that raised is only logged.\<close>

fun collect_results :: "(py_exception + worker_results) list \<Rightarrow> worker_results list" where
  "collect_results [] = []"
| "collect_results (Inr r # rest) = r # collect_results rest"
| "collect_results (Inl e # rest) = collect_results rest"

definition all_results :: "string \<Rightarrow> string list \<Rightarrow> int \<Rightarrow> load_world \<Rightarrow> worker_results list" where
  "all_results base_url test_endpoints num_users world =
     collect_results
       (map (\<lambda>i. worker_run base_url test_endpoints (worker_worlds world i)) [0..<nat num_users])"

text \<open>The loop that sums and concatenates the workers' results.\<close>

fun combine_results :: "worker_results \<Rightarrow> worker_results list \<Rightarrow> worker_results" where
  "combine_results combined [] = combined"
| "combine_results combined (worker_result # rest) =
     combine_results
       (combined\<lparr>requests := requests combined + requests worker_result,
                 successful := successful combined + successful worker_result,
                 failed := failed combined + failed worker_result,
                 response_times := response_times combined @ response_times worker_result,
                 errors := errors combined @ errors worker_result\<rparr>)
       rest"

definition threshold_test :: "string \<Rightarrow> bool \<Rightarrow> string \<Rightarrow> test" where
  "threshold_test n ok msg = status_test n (if ok then ''PASS'' else ''FAIL'') msg"

definition count_pass :: "test list \<Rightarrow> int" where
  "count_pass ts = int (length (filter (\<lambda>t. status t = PStr ''PASS'') ts))"

definition test_endpoints_of :: "string list \<Rightarrow> load_world \<Rightarrow> string \<Rightarrow> string list" where
  "test_endpoints_of endpoints world base_url =
     (if endpoints \<noteq> [] then endpoints else discover_endpoints (head_reply world) base_url)"

text \<open>
  The body of the outer \<^verbatim>\<open>try\<close> of \<^verbatim>\<open>run_load_test\<close> after the accessibility check.
  \<^verbatim>\<open>ThreadPoolExecutor\<close> raises a \<^verbatim>\<open>ValueError\<close> when \<open>max_workers\<close> is not positive.
  \<open>endpoints = []\<close> stands for both \<^verbatim>\<open>None\<close> and the empty list, which the code treats
  alike.
\<close>

definition load_test_body ::
  "py_runtime \<Rightarrow> string \<Rightarrow> int \<Rightarrow> int \<Rightarrow> int \<Rightarrow> string list \<Rightarrow> load_world
     \<Rightarrow> py_exception + load_test_results" where
  "load_test_body rt base_url num_users duration max_allowed endpoints world =
     (let test_endpoints = test_endpoints_of endpoints world base_url in
      if num_users \<le> 0 then Inl (ValueError ''max_workers must be greater than 0'')
      else
        let combined = combine_results init_results
                         (all_results base_url test_endpoints num_users world) in
        (case compute_statistics (response_times combined) of
           Inl e \<Rightarrow> Inl e
         | Inr st \<Rightarrow>
             (case py_truediv (requests combined) duration of
                Inl e \<Rightarrow> Inl e
              | Inr tp \<Rightarrow>
                  (let rate = (if requests combined > 0
                               then real_of_int (successful combined) /
                                      real_of_int (requests combined) * 100
                               else 0);
                       m = worker_results.extend (combined\<lparr>stats := st\<rparr>)
                             (load_metrics.fields tp rate);
                       avg = (case st of None \<Rightarrow> 0 | Some s \<Rightarrow> avg_response_time s);
                       p95 = (case st of None \<Rightarrow> 0 | Some s \<Rightarrow> p95_response_time s);
                       min_throughput = real_of_int num_users / 2;
                       tests =
                         [threshold_test ''Request success rate'' (rate \<ge> 95)
                            (''Success rate: '' @ format_fixed rt 1 rate @ ''%''),
                          threshold_test ''Average response time''
                            (avg \<le> real_of_int max_allowed)
                            (''Average response time: '' @ format_fixed rt 1 avg @
                               '' ms (Max allowed: '' @ str_int max_allowed @ '' ms)''),
                          threshold_test ''95th percentile response time''
                            (p95 \<le> real_of_int max_allowed * 1.5)
                            (''95th percentile response time: '' @ format_fixed rt 1 p95 @
                               '' ms (Max allowed: '' @
                               str_float rt (real_of_int max_allowed * 1.5) @ '' ms)''),
                          threshold_test ''Throughput (requests per second)''
                            (tp \<ge> min_throughput)
                            (''Throughput: '' @ format_fixed rt 1 tp @
                               '' requests/sec (Min expected: '' @
                               str_float rt min_throughput @ '')'')]
                   in Inr \<lparr>lt_passed = (count_pass tests = 4),
                           lt_total = 4,
                           lt_passed_tests = count_pass tests,
                           lt_tests = tests,
                           lt_metrics = Some m,
                           lt_error = None\<rparr>))))"

definition run_load_test ::
  "py_runtime \<Rightarrow> string \<Rightarrow> int \<Rightarrow> int \<Rightarrow> int \<Rightarrow> string list \<Rightarrow> load_world
     \<Rightarrow> load_test_results" where
  "run_load_test rt base_url num_users duration max_allowed endpoints world =
     (let results = \<lparr>lt_passed = False, lt_total = 0, lt_passed_tests = 0, lt_tests = [],
                      lt_metrics = None, lt_error = None\<rparr>
      in case base_reply world of
           Failed (RequestException m) \<Rightarrow>
             results\<lparr>lt_tests := [status_test ''Base URL accessibility check'' ''FAIL''
                                    (''Base URL is not accessible: '' @ m)],
                     lt_total := 1\<rparr>
         | Failed e \<Rightarrow> results\<lparr>lt_passed := False, lt_error := Some (str_exception e)\<rparr>
         | Replied resp t \<Rightarrow>
             (case load_test_body rt base_url num_users duration max_allowed endpoints world of
                Inl e \<Rightarrow> results\<lparr>lt_passed := False, lt_error := Some (str_exception e)\<rparr>
              | Inr res \<Rightarrow> res))"

text \<open>A worker's counters balance: every attempt is counted once, as a success or a failure.\<close>

definition balanced :: "'a worker_results_scheme \<Rightarrow> bool" where
  "balanced r \<longleftrightarrow> successful r + failed r = requests r"

text \<open>A sample environment: two workers, each with one answered and one failed request.\<close>

definition plain_runtime :: py_runtime where
  "plain_runtime = \<lparr>format_fixed = (\<lambda>d x. ''<float>''), str_float = (\<lambda>x. ''<float>'')\<rparr>"

definition ok_response :: response where
  "ok_response = \<lparr>status_code = 200, headers = [], json_body = None, body_text = ''ok''\<rparr>"

definition sample_worker :: worker_world where
  "sample_worker =
     \<lparr>deadline_checks = [True, True, True, False],
      replies = (\<lambda>k. if k = 0 then Replied ok_response 12
                      else Failed (RequestException ''timed out''))\<rparr>"

definition sample_load_world :: load_world where
  "sample_load_world =
     \<lparr>base_reply = Replied ok_response 3,
      head_reply = (\<lambda>url. Failed (RequestException ''refused'')),
      worker_worlds = (\<lambda>i. sample_worker)\<rparr>"

section \<open>The schema validator (api\_tests/api\_validator.py)\<close>

text \<open>
  The classes a schema can name and a decoded JSON value can have. \<^verbatim>\<open>bool\<close> is a
  subclass of \<^verbatim>\<open>int\<close>, and every class one of \<^verbatim>\<open>object\<close>.
\<close>

datatype pytype = TNoneType | TBool | TInt | TFloat | TStr | TList | TDict | TObject

definition type_name :: "pytype \<Rightarrow> string" where
  "type_name t =
     (case t of
        TNoneType \<Rightarrow> ''NoneType'' | TBool \<Rightarrow> ''bool'' | TInt \<Rightarrow> ''int''
      | TFloat \<Rightarrow> ''float'' | TStr \<Rightarrow> ''str'' | TList \<Rightarrow> ''list''
      | TDict \<Rightarrow> ''dict'' | TObject \<Rightarrow> ''object'')"

definition type_of :: "pyval \<Rightarrow> pytype" where
  "type_of d =
     (case d of
        PNone \<Rightarrow> TNoneType | PBool b \<Rightarrow> TBool | PInt i \<Rightarrow> TInt | PFloat x \<Rightarrow> TFloat
      | PStr s \<Rightarrow> TStr | PList xs \<Rightarrow> TList | PDict kvs \<Rightarrow> TDict)"

definition isinstance :: "pyval \<Rightarrow> pytype \<Rightarrow> bool" where
  "isinstance d t \<longleftrightarrow> t = TObject \<or> type_of d = t \<or> (type_of d = TBool \<and> t = TInt)"

text \<open>
  A schema is a class, a list (of which only the first entry is read), a dictionary in
  insertion order, or any other object; of the last the code observes the truth value
  only, which \<open>SOther\<close> carries (\<^verbatim>\<open>None\<close> is \<open>SOther False\<close>).
\<close>

datatype schema =
    SType pytype
  | SList "schema list"
  | SDict "(string \<times> schema) list"
  | SOther bool

fun validate_schema :: "pyval \<Rightarrow> schema \<Rightarrow> bool \<times> string"
  and validate_items :: "pyval list \<Rightarrow> nat \<Rightarrow> schema \<Rightarrow> bool \<times> string"
  and validate_keys :: "(string \<times> pyval) list \<Rightarrow> (string \<times> schema) list \<Rightarrow> bool \<times> string"
where
  "validate_schema d (SType t) =
     (if \<not> isinstance d t
      then (False, ''Expected '' @ type_name t @ '', got '' @ type_name (type_of d))
      else (True, []))"
| "validate_schema d (SList ss) =
     (case d of
        PList items \<Rightarrow> (case ss of [] \<Rightarrow> (True, []) | s # rest \<Rightarrow> validate_items items 0 s)
      | _ \<Rightarrow> (False, ''Expected list, got '' @ type_name (type_of d)))"
| "validate_schema d (SDict entries) =
     (case d of
        PDict kvs \<Rightarrow> validate_keys kvs entries
      | _ \<Rightarrow> (False, ''Expected dict, got '' @ type_name (type_of d)))"
| "validate_schema d (SOther b) = (True, [])"
| "validate_items [] i s = (True, [])"
| "validate_items (item # rest) i s =
     (case validate_schema item s of
        (valid, msg) \<Rightarrow>
          if \<not> valid then (False, ''item['' @ str_nat i @ ''] -> '' @ msg)
          else validate_items rest (Suc i) s)"
| "validate_keys kvs [] = (True, [])"
| "validate_keys kvs ((key, val_schema) # rest) =
     (case map_of kvs key of
        None \<Rightarrow> (False, ''Missing required key: '' @ [CHR 0x27] @ key @ [CHR 0x27])
      | Some v \<Rightarrow>
          (case validate_schema v val_schema of
             (valid, msg) \<Rightarrow>
               if \<not> valid then (False, [CHR 0x27] @ key @ [CHR 0x27] @ '' -> '' @ msg)
               else validate_keys kvs rest))"


text \<open>
  What the specification asks of a value: a class matches by the instance check; a list
  schema asks for a list whose every element matches the element schema; a dictionary
  schema asks for a dictionary that has every key of the schema, with a matching value;
  any other schema is matched by every value. The specification knows list schemas of
  one entry only: of a longer one the first entry is taken as the element schema, and
  one without entries constrains no element.
\<close>

fun matches :: "pyval \<Rightarrow> schema \<Rightarrow> bool" where
  "matches d (SType t) = isinstance d t"
| "matches d (SList []) = (type_of d = TList)"
| "matches d (SList (s # rest)) =
     (case d of PList items \<Rightarrow> list_all (\<lambda>x. matches x s) items | _ \<Rightarrow> False)"
| "matches d (SDict entries) =
     (case d of
        PDict kvs \<Rightarrow>
          list_all (\<lambda>(key, vs). case map_of kvs key of None \<Rightarrow> False | Some v \<Rightarrow> matches v vs)
            entries
      | _ \<Rightarrow> False)"
| "matches d (SOther b) = True"

definition has_matching :: "(string \<times> pyval) list \<Rightarrow> string \<times> schema \<Rightarrow> bool" where
  "has_matching kvs e = (case map_of kvs (fst e) of None \<Rightarrow> False | Some v \<Rightarrow> matches v (snd e))"

text \<open>Where a value fails, and why; and how the message spells both.\<close>

datatype step = Key string | Item nat

datatype reason = Mismatch string string | Missing string

definition render_step :: "step \<Rightarrow> string" where
  "render_step st =
     (case st of
        Key k \<Rightarrow> [CHR 0x27] @ k @ [CHR 0x27] @ '' -> ''
      | Item i \<Rightarrow> ''item['' @ str_nat i @ ''] -> '')"

definition render_path :: "step list \<Rightarrow> string" where
  "render_path p = concat (map render_step p)"

definition render_reason :: "reason \<Rightarrow> string" where
  "render_reason r =
     (case r of
        Mismatch expected actual \<Rightarrow> ''Expected '' @ expected @ '', got '' @ actual
      | Missing k \<Rightarrow> ''Missing required key: '' @ [CHR 0x27] @ k @ [CHR 0x27])"

text \<open>
  The first failing location of a value against a schema: the path leads through the
  first element of a list, or the first key of a dictionary schema, that does not match,
  everything before it matching, down to a value of the wrong class or a dictionary that
  lacks a key.
\<close>

inductive first_failure :: "pyval \<Rightarrow> schema \<Rightarrow> step list \<Rightarrow> reason \<Rightarrow> bool" where
  wrong_class:
    "\<not> isinstance d t \<Longrightarrow>
       first_failure d (SType t) [] (Mismatch (type_name t) (type_name (type_of d)))"
| not_a_list:
    "type_of d \<noteq> TList \<Longrightarrow>
       first_failure d (SList ss) [] (Mismatch ''list'' (type_name (type_of d)))"
| element:
    "i < length items \<Longrightarrow> \<forall>j<i. matches (items ! j) s \<Longrightarrow> first_failure (items ! i) s p r \<Longrightarrow>
       first_failure (PList items) (SList (s # rest)) (Item i # p) r"
| not_a_dict:
    "type_of d \<noteq> TDict \<Longrightarrow>
       first_failure d (SDict entries) [] (Mismatch ''dict'' (type_name (type_of d)))"
| missing_key:
    "entries = before @ (key, vs) # after \<Longrightarrow> \<forall>e \<in> set before. has_matching kvs e \<Longrightarrow>
     map_of kvs key = None \<Longrightarrow>
       first_failure (PDict kvs) (SDict entries) [] (Missing key)"
| key_value:
    "entries = before @ (key, vs) # after \<Longrightarrow> \<forall>e \<in> set before. has_matching kvs e \<Longrightarrow>
     map_of kvs key = Some v \<Longrightarrow> first_failure v vs p r \<Longrightarrow>
       first_failure (PDict kvs) (SDict entries) (Key key # p) r"

text \<open>
  The verdict of each of the three mutually recursive functions, in terms of the
  specification: the statements proved together by induction along the recursion.
\<close>

definition schema_verdict :: "pyval \<Rightarrow> schema \<Rightarrow> bool" where
  "schema_verdict d s \<longleftrightarrow>
     (if matches d s then validate_schema d s = (True, [])
      else \<exists>p r. first_failure d s p r \<and>
             validate_schema d s = (False, render_path p @ render_reason r))"

definition items_verdict :: "pyval list \<Rightarrow> nat \<Rightarrow> schema \<Rightarrow> bool" where
  "items_verdict items i s \<longleftrightarrow>
     (if list_all (\<lambda>x. matches x s) items then validate_items items i s = (True, [])
      else \<exists>k p r. k < length items \<and> (\<forall>j<k. matches (items ! j) s) \<and>
             first_failure (items ! k) s p r \<and>
             validate_items items i s =
               (False, render_step (Item (i + k)) @ render_path p @ render_reason r))"

definition keys_verdict :: "(string \<times> pyval) list \<Rightarrow> (string \<times> schema) list \<Rightarrow> bool" where
  "keys_verdict kvs entries \<longleftrightarrow>
     (if list_all (has_matching kvs) entries then validate_keys kvs entries = (True, [])
      else \<exists>before key vs after. entries = before @ (key, vs) # after \<and>
             (\<forall>e \<in> set before. has_matching kvs e) \<and>
             ((map_of kvs key = None \<and>
               validate_keys kvs entries = (False, render_reason (Missing key))) \<or>
              (\<exists>v p r. map_of kvs key = Some v \<and> first_failure v vs p r \<and>
                 validate_keys kvs entries =
                   (False, render_step (Key key) @ render_path p @ render_reason r))))"

text \<open>A sample response body and a schema it fails at the second user's id.\<close>

definition sample_body :: pyval where
  "sample_body =
     PDict [(''count'', PInt 2),
            (''users'', PList [PDict [(''id'', PInt 1)], PDict [(''id'', PStr ''x'')]])]"

definition sample_schema :: schema where
  "sample_schema =
     SDict [(''count'', SType TInt), (''users'', SList [SDict [(''id'', SType TInt)]])]"

section \<open>The API endpoint validator (api\_tests/api\_validator.py)\<close>

text \<open>\<^verbatim>\<open>str.upper\<close> and \<^verbatim>\<open>str.lower\<close>, on ASCII letters.\<close>

definition upper_char :: "char \<Rightarrow> char" where
  "upper_char c =
     (case map_of (zip ''abcdefghijklmnopqrstuvwxyz'' ''ABCDEFGHIJKLMNOPQRSTUVWXYZ'') c of
        None \<Rightarrow> c | Some u \<Rightarrow> u)"

definition lower_char :: "char \<Rightarrow> char" where
  "lower_char c =
     (case map_of (zip ''ABCDEFGHIJKLMNOPQRSTUVWXYZ'' ''abcdefghijklmnopqrstuvwxyz'') c of
        None \<Rightarrow> c | Some l \<Rightarrow> l)"

definition upper :: "string \<Rightarrow> string" where
  "upper s = map upper_char s"

definition lower :: "string \<Rightarrow> string" where
  "lower s = map lower_char s"

text \<open>
  Dictionaries of headers, in insertion order: \<^verbatim>\<open>d[k] = v\<close>, \<^verbatim>\<open>d.setdefault(k, v)\<close>, and
  the lookups of the case-insensitive dictionary that \<^verbatim>\<open>response.headers\<close> is.
\<close>

fun set_item :: "string \<Rightarrow> string \<Rightarrow> (string \<times> string) list \<Rightarrow> (string \<times> string) list" where
  "set_item k v [] = [(k, v)]"
| "set_item k v ((k', v') # rest) =
     (if k' = k then (k, v) # rest else (k', v') # set_item k v rest)"

definition setdefault :: "string \<Rightarrow> string \<Rightarrow> (string \<times> string) list \<Rightarrow> (string \<times> string) list" where
  "setdefault k v d = (if k \<in> set (map fst d) then d else d @ [(k, v)])"

definition ci_contains :: "(string \<times> string) list \<Rightarrow> string \<Rightarrow> bool" where
  "ci_contains d k \<longleftrightarrow> lower k \<in> set (map (\<lambda>e. lower (fst e)) d)"

definition ci_get :: "(string \<times> string) list \<Rightarrow> string \<Rightarrow> string \<Rightarrow> string" where
  "ci_get d k dflt =
     (case filter (\<lambda>e. lower (fst e) = lower k) d of [] \<Rightarrow> dflt | e # rest \<Rightarrow> snd e)"

text \<open>\<^verbatim>\<open>sep.join(xs)\<close>.\<close>

fun join :: "string \<Rightarrow> string list \<Rightarrow> string" where
  "join sep [] = []"
| "join sep [x] = x"
| "join sep (x # y # rest) = x @ sep @ join sep (y # rest)"

text \<open>
  What \<^verbatim>\<open>requests.request\<close> is called with. The payload is handed on as it is and never
  inspected.
\<close>

record http_request =
  req_method :: string
  req_url :: string
  req_payload :: "pyval option"
  req_headers :: "(string \<times> string) list"
  req_timeout :: int

record api_validator =
  av_base_url :: string
  av_timeout :: int
  av_sla_ms :: int
  av_headers :: "(string \<times> string) list"

text \<open>
  The constructor. \<open>auth_token\<close> is \<open>None\<close> or a string, and the empty string counts as no
  token; \<open>hdrs = []\<close> stands for both \<^verbatim>\<open>None\<close> and the empty dictionary.
\<close>

definition new_validator ::
  "string \<Rightarrow> string option \<Rightarrow> (string \<times> string) list \<Rightarrow> int \<Rightarrow> int \<Rightarrow> api_validator" where
  "new_validator base_url auth_token hdrs tmo sla =
     (let h = setdefault ''Accept'' ''application/json''
                (setdefault ''Content-Type'' ''application/json'' hdrs)
      in \<lparr>av_base_url = rstrip CHR ''/'' base_url,
          av_timeout = tmo,
          av_sla_ms = sla,
          av_headers =
            (case auth_token of
               None \<Rightarrow> h
             | Some tok \<Rightarrow> if tok = [] then h else set_item ''Authorization'' (''Bearer '' @ tok) h)\<rparr>)"

text \<open>The keyword arguments of \<^verbatim>\<open>validate_endpoint\<close>, with their defaults.\<close>

record endpoint_config =
  endpoint :: string
  http_method :: string
  expected_status :: int
  expected_content_type :: string
  required_fields :: "string list"
  expected_schema :: schema
  payload :: "pyval option"
  authentication_required :: bool
  sla_ms :: "int option"

definition default_config :: "string \<Rightarrow> endpoint_config" where
  "default_config ep =
     \<lparr>endpoint = ep, http_method = ''GET'', expected_status = 200,
      expected_content_type = ''application/json'', required_fields = [],
      expected_schema = SOther False, payload = None, authentication_required = False,
      sla_ms = None\<rparr>"

text \<open>
  The environment of one call of \<^verbatim>\<open>validate_endpoint\<close>: the clock in whole seconds, and
  the replies to the first request and to the request repeated without authorization.
\<close>

record endpoint_world =
  clock_seconds :: int
  first_reply :: "http_request \<Rightarrow> reply"
  second_reply :: "http_request \<Rightarrow> reply"

record endpoint_result =
  er_endpoint :: string
  er_method :: string
  er_url :: string
  er_passed :: bool
  er_tests :: "test list"
  er_status_code :: "int option"
  er_response_time :: "real option"
  er_response :: "pyval option"
  er_error :: "string option"

definition passed_test :: "string \<Rightarrow> bool \<Rightarrow> string \<Rightarrow> test" where
  "passed_test n ok msg =
     \<lparr>name = n, status = PNone, passed = PBool ok, message = msg, remediation = None\<rparr>"

text \<open>The truth value of a schema in \<^verbatim>\<open>if expected_schema\<close>.\<close>

definition schema_truthy :: "schema \<Rightarrow> bool" where
  "schema_truthy s =
     (case s of SType t \<Rightarrow> True | SList ss \<Rightarrow> ss \<noteq> [] | SDict es \<Rightarrow> es \<noteq> [] | SOther b \<Rightarrow> b)"

text \<open>
  \<^verbatim>\<open>f in response_json\<close> for a string \<open>f\<close>: a key of a dictionary, an element of a list,
  a substring of a string; on any other value the test raises a \<^verbatim>\<open>TypeError\<close>.
\<close>

definition py_in :: "string \<Rightarrow> pyval \<Rightarrow> py_exception + bool" where
  "py_in f j =
     (case j of
        PDict kvs \<Rightarrow> Inr (f \<in> set (map fst kvs))
      | PList xs \<Rightarrow> Inr (PStr f \<in> set xs)
      | PStr s \<Rightarrow> Inr (contains s f)
      | _ \<Rightarrow> Inl (TypeError (''argument of type '' @ [CHR 0x27] @ type_name (type_of j) @
                               [CHR 0x27] @ '' is not iterable'')))"

text \<open>The list comprehension \<^verbatim>\<open>[f for f in required_fields if f not in response_json]\<close>.\<close>

fun missing_fields :: "string list \<Rightarrow> pyval \<Rightarrow> py_exception + string list" where
  "missing_fields [] j = Inr []"
| "missing_fields (f # fs) j =
     (case py_in f j of
        Inl e \<Rightarrow> Inl e
      | Inr present \<Rightarrow>
          (case missing_fields fs j of
             Inl e \<Rightarrow> Inl e
           | Inr rest \<Rightarrow> Inr (if present then rest else f # rest)))"

text \<open>Test 3, the schema or required-fields check of a JSON response.\<close>

definition schema_tests :: "pyval option \<Rightarrow> schema \<Rightarrow> string list \<Rightarrow> py_exception + test list" where
  "schema_tests body sch fields_required =
     (case body of
        None \<Rightarrow> Inr []
      | Some response_json \<Rightarrow>
          if schema_truthy sch then
            (case validate_schema response_json sch of
               (valid, msg) \<Rightarrow>
                 Inr [passed_test ''Schema validation'' valid
                        (if valid then ''Schema matches'' else ''Schema mismatch: '' @ msg)])
          else if fields_required \<noteq> [] then
            (case missing_fields fields_required response_json of
               Inl e \<Rightarrow> Inl e
             | Inr missing \<Rightarrow>
                 Inr [passed_test ''Required fields check'' (missing = [])
                        (if missing = [] then ''All fields present''
                         else ''Missing: '' @ join '', '' missing)])
          else Inr [])"

text \<open>
  Test 4, the request repeated without the \<open>Authorization\<close> header; any exception of
  that request is caught by a bare \<^verbatim>\<open>except\<close>.
\<close>

definition no_auth_headers :: "(string \<times> string) list \<Rightarrow> (string \<times> string) list" where
  "no_auth_headers hs = filter (\<lambda>e. fst e \<noteq> ''Authorization'') hs"

definition auth_tests :: "bool \<Rightarrow> http_request \<Rightarrow> (http_request \<Rightarrow> reply) \<Rightarrow> test list" where
  "auth_tests auth_required req reply_to =
     (if auth_required then
        (case reply_to (req\<lparr>req_headers := no_auth_headers (req_headers req)\<rparr>) of
           Replied no_auth_res t \<Rightarrow>
             (let auth_passed = (status_code no_auth_res \<in> {401, 403})
              in [passed_test ''Auth enforcement'' auth_passed
                    (if auth_passed
                     then ''Access denied as expected (Got '' @
                            str_int (status_code no_auth_res) @ '')''
                     else ''Endpoint allowed unauthorized access'')])
         | Failed e \<Rightarrow>
             [passed_test ''Auth enforcement'' True ''Connection refused without auth''])
      else [])"

text \<open>\<^verbatim>\<open>all(test["passed"] for test in tests)\<close>, on tests that hold a Boolean.\<close>

definition all_passed :: "test list \<Rightarrow> bool" where
  "all_passed ts = list_all (\<lambda>t. passed t = PBool True) ts"

text \<open>
  The first request of \<^verbatim>\<open>validate_endpoint\<close>: the validator's headers with the tracking
  identifier added, the method in upper case.
\<close>

definition endpoint_request :: "api_validator \<Rightarrow> endpoint_config \<Rightarrow> endpoint_world \<Rightarrow> http_request" where
  "endpoint_request av cfg world =
     \<lparr>req_method = upper (http_method cfg),
      req_url = av_base_url av @ endpoint cfg,
      req_payload = payload cfg,
      req_headers = set_item ''X-Request-ID'' (''val-'' @ str_int (clock_seconds world))
                      (av_headers av),
      req_timeout = av_timeout av\<rparr>"

definition validate_endpoint ::
  "py_runtime \<Rightarrow> api_validator \<Rightarrow> endpoint_config \<Rightarrow> endpoint_world
     \<Rightarrow> py_exception + endpoint_result" where
  "validate_endpoint rt av cfg world =
     (let req = endpoint_request av cfg world;
          target_sla = (case sla_ms cfg of
                          None \<Rightarrow> av_sla_ms av
                        | Some v \<Rightarrow> if v = 0 then av_sla_ms av else v);
          results = \<lparr>er_endpoint = endpoint cfg, er_method = req_method req,
                      er_url = req_url req, er_passed = False, er_tests = [],
                      er_status_code = None, er_response_time = None, er_response = None,
                      er_error = None\<rparr>
      in case first_reply world req of
           Failed (RequestException m) \<Rightarrow>
             Inr (results\<lparr>er_error := Some m,
                          er_tests := [passed_test ''Network connectivity'' False
                                         (''Request failed: '' @ m)]\<rparr>)
         | Failed e \<Rightarrow> Inl e
         | Replied resp response_time \<Rightarrow>
             (let tracking = passed_test ''Tracking ID support''
                               (ci_contains (headers resp) ''X-Request-ID'' \<or>
                                status_code resp < 500)
                               ''API should ideally echo or support X-Request-ID'';
                  shown = (case json_body resp of
                             Some j \<Rightarrow> j | None \<Rightarrow> PStr (take 500 (body_text resp)));
                  status_check = passed_test ''Status code check''
                                   (status_code resp = expected_status cfg)
                                   (''Expected '' @ str_int (expected_status cfg) @ '', got '' @
                                      str_int (status_code resp));
                  content_type = ci_get (headers resp) ''Content-Type'' [];
                  content_check = passed_test ''Content type check''
                                    (contains content_type (expected_content_type cfg))
                                    (''Expected '' @ expected_content_type cfg @ '', got '' @
                                       content_type)
              in case schema_tests (json_body resp) (expected_schema cfg) (required_fields cfg) of
                   Inl e \<Rightarrow> Inl e
                 | Inr schema_checks \<Rightarrow>
                     (let tests = [tracking, status_check, content_check] @ schema_checks @
                                  auth_tests (authentication_required cfg) req (second_reply world) @
                                  [passed_test ''SLA Response time''
                                     (response_time \<le> real_of_int target_sla)
                                     (format_fixed rt 1 response_time @ ''ms (SLA: '' @
                                        str_int target_sla @ ''ms)'')]
                      in Inr (results\<lparr>er_status_code := Some (status_code resp),
                                      er_response_time := Some response_time,
                                      er_response := Some shown,
                                      er_tests := tests,
                                      er_passed := all_passed tests\<rparr>))))"




definition api_common_paths :: "string list" where
  "api_common_paths =
     [''/'', ''/api'', ''/api/v1'', ''/api/v2'', ''/health'', ''/status'', ''/docs'',
      ''/api/docs'', ''/swagger'', ''/api/users'', ''/api/auth/login'', ''/api/auth/register'',
      ''/api/products'', ''/api/orders'']"

definition head_request :: "api_validator \<Rightarrow> string \<Rightarrow> http_request" where
  "head_request av path =
     \<lparr>req_method = ''HEAD'', req_url = av_base_url av @ path, req_payload = None,
      req_headers = av_headers av, req_timeout = min 2 (av_timeout av)\<rparr>"

text \<open>
  The loop of \<^verbatim>\<open>discover_api_endpoints\<close>: a path is appended when the status of its
  probe is below 404, and any exception of a probe is swallowed.
\<close>

fun probe_paths :: "api_validator \<Rightarrow> (http_request \<Rightarrow> reply) \<Rightarrow> string list \<Rightarrow> string list" where
  "probe_paths av probe [] = []"
| "probe_paths av probe (path # paths) =
     (case probe (head_request av path) of
        Replied resp t \<Rightarrow>
          if status_code resp < 404 then path # probe_paths av probe paths
          else probe_paths av probe paths
      | Failed e \<Rightarrow> probe_paths av probe paths)"

definition discover_api_endpoints :: "api_validator \<Rightarrow> (http_request \<Rightarrow> reply) \<Rightarrow> string list" where
  "discover_api_endpoints av probe = probe_paths av probe api_common_paths"


definition discovered_config :: "string \<Rightarrow> endpoint_config" where
  "discovered_config ep =
     (default_config ep)\<lparr>http_method := ''GET'', expected_status := 200,
                          authentication_required := False\<rparr>"



text \<open>
  Sample services. The first answers 200 to a probe of \<open>/health\<close>, 405 to a probe of the
  login path, which takes \<^verbatim>\<open>POST\<close> only, and 404 to every other probe.
\<close>

definition status_response :: "int \<Rightarrow> response" where
  "status_response code =
     \<lparr>status_code = code, headers = [(''Content-Type'', ''application/json'')],
      json_body = Some (PDict [(''status'', PStr ''ok'')]), body_text = ''ok''\<rparr>"

definition login_only_service :: "http_request \<Rightarrow> reply" where
  "login_only_service req =
     (if req_url req = ''http://h/health'' then Replied (status_response 200) 5
      else if req_url req = ''http://h/api/auth/login'' then Replied (status_response 405) 5
      else Replied (status_response 404) 5)"

definition sample_validator :: api_validator where
  "sample_validator = new_validator ''http://h/'' (Some ''secret-token'') [] 10 500"

text \<open>
  A service that answers every request with 200, with or without authorization, and an
  endpoint declared to require authentication.
\<close>

definition open_service :: "http_request \<Rightarrow> reply" where
  "open_service req = Replied (status_response 200) 20"



section \<open>The environment validator (config\_validators/env\_validator.py)\<close>

text \<open>\<^verbatim>\<open>s.split(c)\<close> for a one-character separator, and \<^verbatim>\<open>s.strip()\<close> on ASCII white space.\<close>

fun split_on :: "char \<Rightarrow> string \<Rightarrow> string list" where
  "split_on c [] = [[]]"
| "split_on c (x # xs) =
     (if x = c then [] # split_on c xs
      else (case split_on c xs of w # ws \<Rightarrow> (x # w) # ws | [] \<Rightarrow> [[x]]))"

definition is_space :: "char \<Rightarrow> bool" where
  "is_space c \<longleftrightarrow>
     c \<in> set [CHR '' '', CHR 0x09, CHR 0x0A, CHR 0x0B, CHR 0x0C, CHR 0x0D,
               CHR 0x1C, CHR 0x1D, CHR 0x1E, CHR 0x1F]"

definition strip :: "string \<Rightarrow> string" where
  "strip s = rev (dropWhile is_space (rev (dropWhile is_space s)))"

text \<open>
  \<^verbatim>\<open>int(s)\<close> on a string: white space around, an optional sign, decimal digits with
  single underscores between them. \<open>None\<close> stands for the \<^verbatim>\<open>ValueError\<close>.
\<close>

definition is_digit :: "char \<Rightarrow> bool" where
  "is_digit c \<longleftrightarrow> c \<in> set ''0123456789''"

definition digit_value :: "char \<Rightarrow> nat" where
  "digit_value c = length (takeWhile (\<lambda>d. d \<noteq> c) ''0123456789'')"

fun well_grouped :: "string \<Rightarrow> bool" where
  "well_grouped [] = False"
| "well_grouped [c] = is_digit c"
| "well_grouped (c # d # rest) =
     (if is_digit c then
        (if d = CHR ''_'' then well_grouped rest else well_grouped (d # rest))
      else False)"

definition decimal_value :: "string \<Rightarrow> nat" where
  "decimal_value s = foldl (\<lambda>acc c. 10 * acc + digit_value c) 0 (filter is_digit s)"

definition py_int :: "string \<Rightarrow> int option" where
  "py_int s =
     (case strip s of
        [] \<Rightarrow> None
      | c # rest \<Rightarrow>
          if c = CHR ''-'' then
            (if well_grouped rest then Some (- int (decimal_value rest)) else None)
          else if c = CHR ''+'' then
            (if well_grouped rest then Some (int (decimal_value rest)) else None)
          else if well_grouped (c # rest) then Some (int (decimal_value (c # rest)))
          else None)"

text \<open>A rule of \<^verbatim>\<open>ENV_SCHEMA\<close>; an absent key is \<open>None\<close>, or \<open>False\<close> for the flags.\<close>

record rule =
  rule_type :: string
  required :: bool
  allowed :: "string list option"
  rule_min :: "int option"
  rule_max :: "int option"
  min_len :: "int option"
  no_sqlite_prod :: bool
  prod_require :: "string option"
  rule_default :: "string option"

definition plain_rule :: "string \<Rightarrow> bool \<Rightarrow> rule" where
  "plain_rule ty req =
     \<lparr>rule_type = ty, required = req, allowed = None, rule_min = None, rule_max = None,
      min_len = None, no_sqlite_prod = False, prod_require = None, rule_default = None\<rparr>"

definition ENV_SCHEMA :: "(string \<times> (string \<times> rule) list) list" where
  "ENV_SCHEMA =
    [(''CORE PLATFORM CONFIGURATION'',
        [(''ENVIRONMENT'',
            (plain_rule ''str'' True)\<lparr>allowed := Some [''development'', ''staging'', ''production'']\<rparr>),
         (''DEBUG'', plain_rule ''bool'' True),
         (''LOG_LEVEL'',
            (plain_rule ''str'' True)
              \<lparr>allowed := Some [''DEBUG'', ''INFO'', ''WARNING'', ''ERROR'', ''CRITICAL'']\<rparr>),
         (''PLATFORM_NAME'', plain_rule ''str'' True),
         (''PLATFORM_VERSION'', plain_rule ''str'' True)]),
     (''DATABASE CONFIGURATION'',
        [(''DATABASE_URL'', (plain_rule ''url'' True)\<lparr>no_sqlite_prod := True\<rparr>),
         (''DATABASE_ENCRYPTION_KEY'', (plain_rule ''secret'' True)\<lparr>min_len := Some 32\<rparr>)]),
     (''JWT AUTHENTICATION & SECURITY'',
        [(''JWT_SECRET_KEY'', (plain_rule ''secret'' True)\<lparr>min_len := Some 32\<rparr>),
         (''JWT_ALGORITHM'', (plain_rule ''str'' True)\<lparr>allowed := Some [''HS256'', ''RS256'']\<rparr>),
         (''JWT_EXPIRATION_HOURS'', (plain_rule ''int'' True)\<lparr>rule_min := Some 1\<rparr>),
         (''ENCRYPTION_KEY'', (plain_rule ''secret'' True)\<lparr>min_len := Some 32\<rparr>),
         (''SSL_ENABLED'',
            (plain_rule ''bool'' False)
              \<lparr>rule_default := Some ''false'', prod_require := Some ''true''\<rparr>)]),
     (''WEB SERVER & API CONFIGURATION'',
        [(''API_HOST'', plain_rule ''str'' True),
         (''API_PORT'', (plain_rule ''int'' True)\<lparr>rule_min := Some 1, rule_max := Some 65535\<rparr>),
         (''API_CORS_ORIGINS'', plain_rule ''list'' True)]),
     (''EMAIL CONFIGURATION'',
        [(''SMTP_SERVER'', plain_rule ''str'' True),
         (''SMTP_PORT'', (plain_rule ''int'' True)\<lparr>rule_min := Some 1, rule_max := Some 65535\<rparr>),
         (''SMTP_USE_TLS'', plain_rule ''bool'' True),
         (''SMTP_FROM_EMAIL'', plain_rule ''email'' True)]),
     (''BACKUP & MONITORING'',
        [(''BACKUP_ENABLED'', plain_rule ''bool'' True),
         (''BACKUP_INTERVAL_HOURS'', (plain_rule ''int'' True)\<lparr>rule_min := Some 1\<rparr>),
         (''HEALTH_CHECK_INTERVAL'', (plain_rule ''int'' True)\<lparr>rule_min := Some 1\<rparr>)])]"

definition is_placeholder :: "string \<Rightarrow> bool" where
  "is_placeholder v \<longleftrightarrow>
     list_ex (\<lambda>p. contains (lower v) (lower p))
       [''your-secret-here'', ''REPLACE_ME'', ''example'', ''placeholder'', ''TODO''] \<or>
     length (remdups v) < 3"

definition parse_env_sections :: "string \<Rightarrow> string list" where
  "parse_env_sections content =
     filter (\<lambda>section. section \<in> set (map fst ENV_SCHEMA))
       (map (\<lambda>line. strip (dropWhile (\<lambda>c. c = CHR ''#'') line))
          (filter (\<lambda>line. startswith line ''#'') (split_on CHR 0x0A content)))"

definition quoted :: "string \<Rightarrow> string" where
  "quoted s = [CHR 0x27] @ s @ [CHR 0x27]"

definition validate_type :: "string \<Rightarrow> rule \<Rightarrow> bool \<times> string" where
  "validate_type v r =
     (let v_type = rule_type r in
      if v_type = ''bool'' then
        (lower v \<in> set [''true'', ''false'', ''1'', ''0'', ''yes'', ''no''],
         ''Must be a boolean value, got '' @ quoted v)
      else if v_type = ''int'' then
        (case py_int v of
           None \<Rightarrow> (False, ''Must be an integer, got '' @ quoted v)
         | Some val \<Rightarrow>
             (case rule_min r of
                Some lo \<Rightarrow>
                  if val < lo then
                    (False, ''Value '' @ str_int val @ '' is below minimum '' @ str_int lo)
                  else
                    (case rule_max r of
                       Some hi \<Rightarrow>
                         if val > hi then
                           (False, ''Value '' @ str_int val @ '' is above maximum '' @ str_int hi)
                         else (True, [])
                     | None \<Rightarrow> (True, []))
              | None \<Rightarrow>
                  (case rule_max r of
                     Some hi \<Rightarrow>
                       if val > hi then
                         (False, ''Value '' @ str_int val @ '' is above maximum '' @ str_int hi)
                       else (True, [])
                   | None \<Rightarrow> (True, []))))
      else if v_type = ''url'' then
        (if contains v ''://'' then (True, [])
         else (False, ''Must be a valid connection URL, got '' @ quoted v))
      else if v_type = ''email'' then
        (contains v ''@'' \<and>
           (case split_on CHR ''@'' v of a # b # rest \<Rightarrow> contains b ''.'' | _ \<Rightarrow> False),
         ''Must be a valid email, got '' @ quoted v)
      else if v_type = ''secret'' then
        (if is_placeholder v then (False, ''Value appears to be a placeholder'')
         else
           (case min_len r of
              Some n \<Rightarrow>
                if int (length v) < n then
                  (False, ''Secret is too short (min '' @ str_int n @ '' chars)'')
                else (True, [])
            | None \<Rightarrow> (True, [])))
      else if v_type = ''list'' then
        (length (split_on CHR '','' v) > 0, ''Must be a comma-separated list'')
      else
        (case allowed r of
           Some vs \<Rightarrow>
             if v \<notin> set vs then
               (False, ''Value '' @ quoted v @ '' not in allowed list: '' @ join '', '' vs)
             else (True, [])
         | None \<Rightarrow> (True, [])))"

text \<open>
  The result dictionary of the environment and the database checker. A test is appended
  together with the counters it changes.
\<close>

record section_result =
  sr_passed :: bool
  sr_total :: int
  sr_passed_tests :: int
  sr_failed_tests :: int
  sr_tests :: "test list"
  sr_error :: "string option"

definition empty_result :: section_result where
  "empty_result =
     \<lparr>sr_passed = False, sr_total = 0, sr_passed_tests = 0, sr_failed_tests = 0,
      sr_tests = [], sr_error = None\<rparr>"

definition record_pass :: "test \<Rightarrow> section_result \<Rightarrow> section_result" where
  "record_pass t res =
     res\<lparr>sr_tests := sr_tests res @ [t], sr_total := sr_total res + 1,
         sr_passed_tests := sr_passed_tests res + 1\<rparr>"

definition record_fail :: "test \<Rightarrow> section_result \<Rightarrow> section_result" where
  "record_fail t res =
     res\<lparr>sr_tests := sr_tests res @ [t], sr_total := sr_total res + 1,
         sr_failed_tests := sr_failed_tests res + 1\<rparr>"

text \<open>
  What the file system gives for the path: no file; a file that \<^verbatim>\<open>dotenv_values\<close> or
  \<^verbatim>\<open>open\<close> cannot read; or the variables \<^verbatim>\<open>dotenv_values\<close> parsed, in which a key
  without a value is bound to \<open>None\<close>, and the text of the file.
\<close>

datatype env_file =
    NoFile
  | Unreadable py_exception
  | Loaded "(string \<times> string option) list" string

text \<open>The body of the loop over the variables of a section.\<close>

definition presence_test :: "string \<Rightarrow> rule \<Rightarrow> test" where
  "presence_test var_name r =
     (if required r then
        status_test (''Variable presence: '' @ var_name) ''FAIL''
          (''Mandatory variable '' @ var_name @ '' is missing'')
      else
        status_test (''Variable presence: '' @ var_name) ''PASS''
          (''Optional variable '' @ var_name @ '' is missing''))"

definition record_missing :: "string \<Rightarrow> rule \<Rightarrow> section_result \<Rightarrow> section_result" where
  "record_missing var_name r res =
     (if required r then record_fail (presence_test var_name r) res
      else record_pass (presence_test var_name r) res)"

definition production_checks :: "bool \<Rightarrow> string \<Rightarrow> rule \<Rightarrow> string \<Rightarrow> bool \<times> string \<Rightarrow> bool \<times> string" where
  "production_checks is_production var_name r v checked =
     (let checked1 = (if is_production \<and> no_sqlite_prod r \<and> contains (lower v) ''sqlite''
                      then (False, ''SQLite is not allowed in production'') else checked)
      in case prod_require r of
           Some wanted \<Rightarrow>
             if is_production \<and> lower v \<noteq> lower wanted
             then (False, ''In production, '' @ var_name @ '' must be '' @ wanted)
             else checked1
         | None \<Rightarrow> checked1)"

definition check_variable :: "bool \<Rightarrow> (string \<times> string option) list \<Rightarrow> string \<times> rule
    \<Rightarrow> section_result \<Rightarrow> section_result" where
  "check_variable is_production env_vars entry res =
     (let var_name = fst entry; r = snd entry
      in case (case map_of env_vars var_name of None \<Rightarrow> None | Some bound \<Rightarrow> bound) of
           None \<Rightarrow> record_missing var_name r res
         | Some v \<Rightarrow>
             if v = [] then record_missing var_name r res
             else
               (let checked = production_checks is_production var_name r v (validate_type v r);
                    is_valid = fst checked; msg = snd checked;
                    t = status_test (''Variable validation: '' @ var_name)
                          (if is_valid then ''PASS'' else ''FAIL'')
                          (if is_valid then var_name @ '' is valid''
                           else var_name @ '' invalid: '' @ msg)
                in if is_valid then record_pass t res else record_fail t res))"

text \<open>
  The body of the loop over the sections: a section out of scope is skipped; the header
  test counts as passed whether it is a PASS or a WARNING.
\<close>

definition check_section :: "bool \<Rightarrow> (string \<times> string option) list \<Rightarrow> string list \<Rightarrow> string list
    \<Rightarrow> string \<times> (string \<times> rule) list \<Rightarrow> section_result \<Rightarrow> section_result" where
  "check_section is_production env_vars env_sections required_sections sec res =
     (let section_name = fst sec in
      if section_name \<notin> set required_sections then res
      else
        (let section_present = (section_name \<in> set env_sections);
             header = status_test (''Section check: '' @ section_name)
                        (if section_present then ''PASS'' else ''WARNING'')
                        (if section_present
                         then ''Section '' @ quoted section_name @ '' is documented''
                         else ''Section header '' @ quoted section_name @
                                '' missing from comments'')
         in foldl (\<lambda>acc entry. check_variable is_production env_vars entry acc)
              (record_pass header res) (snd sec)))"

text \<open>
  \<^verbatim>\<open>validate_env_file\<close>. Reading \<open>ENVIRONMENT\<close> calls \<^verbatim>\<open>lower\<close> on the value, which raises
  when the key is bound to \<^verbatim>\<open>None\<close>; that and an unreadable file are caught by the outer
  \<^verbatim>\<open>except Exception\<close>, before any test has been appended.
\<close>

definition validate_env_file :: "env_file \<Rightarrow> string \<Rightarrow> string list option \<Rightarrow> section_result" where
  "validate_env_file file env_file_path required_sections =
     (let sections = (case required_sections of
                        None \<Rightarrow> map fst ENV_SCHEMA | Some rs \<Rightarrow> rs);
          results = empty_result
      in case file of
           NoFile \<Rightarrow>
             results\<lparr>sr_tests := [status_test ''File existence check'' ''FAIL''
                                    (''Environment file '' @ env_file_path @ '' does not exist'')],
                     sr_total := 1, sr_failed_tests := 1\<rparr>
         | Unreadable e \<Rightarrow> results\<lparr>sr_passed := False, sr_error := Some (str_exception e)\<rparr>
         | Loaded env_vars content \<Rightarrow>
             (case map_of env_vars ''ENVIRONMENT'' of
                Some None \<Rightarrow>
                  results\<lparr>sr_passed := False,
                          sr_error := Some (quoted ''NoneType'' @
                                            '' object has no attribute '' @ quoted ''lower'')\<rparr>
              | environment \<Rightarrow>
                  (let is_production =
                         (lower (case environment of Some (Some v) \<Rightarrow> v | _ \<Rightarrow> []) = ''production'');
                       env_sections = parse_env_sections content;
                       done = foldl (\<lambda>acc sec. check_section is_production env_vars
                                                   env_sections sections sec acc)
                                results ENV_SCHEMA
                   in done\<lparr>sr_passed := (sr_failed_tests done = 0)\<rparr>)))"

text \<open>\<^verbatim>\<open>validate_env_config\<close>, the alias for legacy calls.\<close>

definition validate_env_config :: "env_file \<Rightarrow> string \<Rightarrow> section_result" where
  "validate_env_config file env_file_path = validate_env_file file env_file_path None"

text \<open>The sections the orchestrator asks for.\<close>

definition orchestrator_sections :: "string list" where
  "orchestrator_sections =
     [''CORE PLATFORM CONFIGURATION'', ''DATABASE CONFIGURATION'',
      ''JWT AUTHENTICATION & SECURITY'']"

text \<open>
  The names and statuses of the tests the checker emits for a file without variables:
  per section in scope the header test, then one presence test per variable.
\<close>

definition blank_file_outline :: "string \<Rightarrow> string list \<Rightarrow> (string \<times> pyval) list" where
  "blank_file_outline content sections =
     concat (map (\<lambda>sec.
        (''Section check: '' @ fst sec,
         PStr (if fst sec \<in> set (parse_env_sections content) then ''PASS'' else ''WARNING'')) #
        map (\<lambda>e. (''Variable presence: '' @ fst e,
                   PStr (if required (snd e) then ''FAIL'' else ''PASS''))) (snd sec))
       (filter (\<lambda>sec. fst sec \<in> set sections) ENV_SCHEMA))"

definition outline :: "test list \<Rightarrow> (string \<times> pyval) list" where
  "outline ts = map (\<lambda>t. (name t, status t)) ts"

section \<open>The database validator (config\_validators/db\_validator.py)\<close>

text \<open>What \<^verbatim>\<open>urlparse\<close> returns, as far as the validator reads it.\<close>

record url_parts =
  url_scheme :: string
  url_netloc :: string
  url_path :: string
  url_query :: string

text \<open>
  The dictionary of \<^verbatim>\<open>parse_db_url\<close>. For sqlite only the type and the path are set; the
  other keys are never read then.
\<close>

record db_info =
  db_type :: string
  username :: string
  password :: "string option"
  host :: string
  port :: "string option"
  database :: string
  query_params :: "(string \<times> string) list"
  sqlite_path :: string







record connection_result =
  connected :: bool
  response_time :: "real option"
  connection_error :: "string option"















definition record_only :: "test \<Rightarrow> section_result \<Rightarrow> section_result" where
  "record_only t res = res\<lparr>sr_tests := sr_tests res @ [t], sr_total := sr_total res + 1\<rparr>"





definition null_world :: endpoint_world where
  "null_world =
     \<lparr>clock_seconds = 1700000000,
      first_reply = (\<lambda>req. Replied ((status_response 200)\<lparr>json_body := Some PNone\<rparr>) 20),
      second_reply = open_service\<rparr>"

definition fields_config :: endpoint_config where
  "fields_config = (default_config ''/api/users'')\<lparr>required_fields := [''id'']\<rparr>"




section \<open>The security scanner (security\_tests/security\_scanner.py)\<close>

text \<open>
  The regular expressions of the checkers, by name. Matching is the work of the library
  and is taken as given: \<open>re_search p s\<close> is the truth value of \<^verbatim>\<open>re.search\<close> of the
  pattern in \<open>s\<close>, and \<open>re_findall p s\<close> the number of matches \<^verbatim>\<open>re.findall\<close> lists;
  \<open>json_loads_ok s\<close> tells whether \<^verbatim>\<open>json.loads(s)\<close> returns.
  \<open>Digit\<close> is the pattern of one decimal digit; \<open>AwsKey\<close>, \<open>GenericSecret\<close> and
  \<open>PrivateKey\<close> are the secret patterns of the scanner; \<open>CreditCard\<close> and
  \<open>SocialSecurityNumber\<close> are those of the log scan, which also uses \<open>GenericSecret\<close>;
  the others are the patterns of the Dockerfile analysis.
\<close>

datatype pattern =
    Digit
  | AwsKey
  | GenericSecret
  | PrivateKey
  | CreditCard
  | SocialSecurityNumber
  | FromInstruction
  | LatestTag
  | ExposeInstruction
  | UserInstruction
  | HealthcheckInstruction
  | Chmod777

record py_library =
  re_search :: "pattern \<Rightarrow> string \<Rightarrow> bool"
  re_findall :: "pattern \<Rightarrow> string \<Rightarrow> nat"
  json_loads_ok :: "string \<Rightarrow> bool"

definition RECOMMENDED_SECURITY_HEADERS :: "(string \<times> bool) list" where
  "RECOMMENDED_SECURITY_HEADERS =
     [(''Strict-Transport-Security'', True),
      (''Content-Security-Policy'', True),
      (''X-Content-Type-Options'', True),
      (''X-Frame-Options'', True),
      (''X-XSS-Protection'', True),
      (''Referrer-Policy'', True),
      (''Feature-Policy'', False),
      (''Permissions-Policy'', False)]"

definition AUTH_TEST_ENDPOINTS :: "string list" where
  "AUTH_TEST_ENDPOINTS =
     [''/api/auth/login'', ''/api/auth/register'', ''/api/auth/reset-password'',
      ''/api/users'', ''/api/customers'']"

text \<open>
  What the TLS connection of \<^verbatim>\<open>check_ssl_tls\<close> gives: the negotiated protocol and the days
  until the certificate expires, or the exception of one of the three classes the
  function tells apart. An exception is taken to come from the connection or from
  reading the certificate, before an issue is noted. The protocol, the cipher and the
  date are also stored in the result, where the scan never reads them.
\<close>

datatype tls_outcome =
    Handshake string int
  | SslError string
  | SocketError string
  | OtherError string

record ssl_result =
  ssl_secure :: bool
  cert_days_remaining :: "int option"
  ssl_issues :: "string list"

text \<open>
  \<^verbatim>\<open>check_ssl_tls\<close>. Parsing the URL and reading its port come before the \<^verbatim>\<open>try\<close>, so their
  \<^verbatim>\<open>ValueError\<close> leaves the function.
\<close>

definition check_ssl_tls ::
  "(py_exception + url_parts) \<Rightarrow> (py_exception + int option) \<Rightarrow> tls_outcome
     \<Rightarrow> py_exception + ssl_result" where
  "check_ssl_tls parsed port_read tls =
     (let result = \<lparr>ssl_secure = False, cert_days_remaining = None, ssl_issues = []\<rparr>
      in case parsed of
           Inl e \<Rightarrow> Inl e
         | Inr u \<Rightarrow>
             (case port_read of
                Inl e \<Rightarrow> Inl e
              | Inr p \<Rightarrow>
                  if url_scheme u \<noteq> ''https''
                  then Inr (result\<lparr>ssl_issues := [''Not using HTTPS'']\<rparr>)
                  else
                    (case tls of
                       Handshake protocol remaining_days \<Rightarrow>
                         (let issues =
                                (if remaining_days < 30
                                 then [''Certificate expires in '' @ str_int remaining_days @
                                         '' days'']
                                 else []) @
                                (if protocol \<in> set [''TLSv1'', ''TLSv1.1'']
                                 then [''Outdated TLS version: '' @ protocol]
                                 else [])
                          in Inr \<lparr>ssl_secure = (issues = []),
                                  cert_days_remaining = Some remaining_days,
                                  ssl_issues = issues\<rparr>)
                     | SslError m \<Rightarrow> Inr (result\<lparr>ssl_issues := [''SSL Error: '' @ m]\<rparr>)
                     | SocketError m \<Rightarrow>
                         Inr (result\<lparr>ssl_issues := [''Connection Error: '' @ m]\<rparr>)
                     | OtherError m \<Rightarrow> Inr (result\<lparr>ssl_issues := [''Error: '' @ m]\<rparr>))))"

record header_result =
  headers_present :: "(string \<times> string) list"
  missing_headers :: "string list"
  header_score :: real
  header_max_score :: real
  score_percentage :: "real option"
  header_error :: "string option"

text \<open>The body of the loop over the recommended headers.\<close>

definition score_header ::
  "(string \<times> string) list \<Rightarrow> header_result \<Rightarrow> string \<times> bool \<Rightarrow> header_result" where
  "score_header hs result entry =
     (let header = fst entry; needed = snd entry;
          weight = (if needed then 1 else 0.5);
          r1 = result\<lparr>header_max_score := header_max_score result + weight\<rparr>
      in if ci_contains hs header
         then r1\<lparr>headers_present := headers_present r1 @ [(header, ci_get hs header [])],
                 header_score := header_score r1 + weight\<rparr>
         else if needed then r1\<lparr>missing_headers := missing_headers r1 @ [header]\<rparr>
         else r1)"

text \<open>\<^verbatim>\<open>check_security_headers\<close>; only a \<^verbatim>\<open>RequestException\<close> is caught.\<close>

definition check_security_headers :: "reply \<Rightarrow> py_exception + header_result" where
  "check_security_headers rep =
     (let result = \<lparr>headers_present = [], missing_headers = [], header_score = 0,
                     header_max_score = 0, score_percentage = None, header_error = None\<rparr>
      in case rep of
           Replied resp t \<Rightarrow>
             (let r1 = foldl (score_header (headers resp)) result RECOMMENDED_SECURITY_HEADERS
              in Inr (r1\<lparr>score_percentage :=
                           Some (if header_max_score r1 > 0
                                 then header_score r1 / header_max_score r1 * 100
                                 else 0)\<rparr>))
         | Failed (RequestException m) \<Rightarrow> Inr (result\<lparr>header_error := Some m\<rparr>)
         | Failed e \<Rightarrow> Inl e)"

record cors_result =
  cors_secure :: bool
  cors_issues :: "string list"
  cors_error :: "string option"

text \<open>
  \<^verbatim>\<open>check_cors_configuration\<close>. The result also stores the four CORS headers, which the
  scan never reads. An absent header reads as \<^verbatim>\<open>None\<close>, which is neither \<^verbatim>\<open>'*'\<close> nor true.
\<close>

definition check_cors_configuration :: "reply \<Rightarrow> py_exception + cors_result" where
  "check_cors_configuration rep =
     (let result = \<lparr>cors_secure = False, cors_issues = [], cors_error = None\<rparr>
      in case rep of
           Replied resp t \<Rightarrow>
             (let access_control_allow_origin =
                    ci_get (headers resp) ''Access-Control-Allow-Origin'' [];
                  access_control_allow_headers =
                    ci_get (headers resp) ''Access-Control-Allow-Headers'' [];
                  issues =
                    (if access_control_allow_origin = ''*''
                     then [''CORS allows any origin (*)''] else []) @
                    (if access_control_allow_headers \<noteq> [] \<and>
                        lower access_control_allow_headers = ''*''
                     then [''CORS allows any headers (*)''] else [])
              in Inr (result\<lparr>cors_issues := issues, cors_secure := (issues = [])\<rparr>))
         | Failed (RequestException m) \<Rightarrow> Inr (result\<lparr>cors_error := Some m\<rparr>)
         | Failed e \<Rightarrow> Inl e)"

text \<open>
  The environment of \<^verbatim>\<open>check_auth_endpoints\<close>, by URL: the reply to the \<^verbatim>\<open>HEAD\<close> probe, the
  replies to the ten \<^verbatim>\<open>GET\<close> requests, the seconds these took together, and the reply to
  the \<^verbatim>\<open>POST\<close> with empty credentials.
\<close>

record auth_world =
  auth_head :: "string \<Rightarrow> reply"
  auth_burst :: "string \<Rightarrow> nat \<Rightarrow> reply"
  auth_burst_seconds :: "string \<Rightarrow> real"
  auth_post :: "string \<Rightarrow> reply"

record auth_result =
  auth_secure :: bool
  endpoints_tested :: int
  auth_issues :: "string list"
  auth_error :: "string option"

text \<open>The first exception among a sequence of requests, if any.\<close>

fun first_raised :: "reply list \<Rightarrow> py_exception option" where
  "first_raised [] = None"
| "first_raised (Replied resp t # rest) = first_raised rest"
| "first_raised (Failed e # rest) = Some e"

text \<open>
  The loop over the candidate endpoints. An exception of the probe or of one of the ten
  requests ends the loop and is handed on with the issues found so far; an exception of
  the \<^verbatim>\<open>POST\<close> is swallowed by its own bare \<^verbatim>\<open>except\<close>.
\<close>

fun auth_loop ::
  "auth_world \<Rightarrow> string \<Rightarrow> string list \<Rightarrow> int \<Rightarrow> string list
     \<Rightarrow> (py_exception \<times> string list) + (int \<times> string list)" where
  "auth_loop w base_url [] endpoints_found issues = Inr (endpoints_found, issues)"
| "auth_loop w base_url (ep # rest) endpoints_found issues =
     (let url = rstrip CHR ''/'' base_url @ ep
      in case auth_head w url of
           Failed e \<Rightarrow> Inl (e, issues)
         | Replied head_response t \<Rightarrow>
             if status_code head_response \<notin> set [404, 405] then
               (case first_raised (map (auth_burst w url) [0..<10]) of
                  Some e \<Rightarrow> Inl (e, issues)
                | None \<Rightarrow>
                    (let issues1 =
                           issues @
                           (if auth_burst_seconds w url < 2
                            then [''Endpoint '' @ ep @ '' may lack rate limiting'']
                            else []);
                         issues2 =
                           issues1 @
                           (if contains ep ''/login'' \<or> contains ep ''/auth'' then
                              (case auth_post w url of
                                 Replied auth_response t2 \<Rightarrow>
                                   if status_code auth_response = 200
                                   then [''Endpoint '' @ ep @ '' may accept empty credentials'']
                                   else []
                               | Failed e \<Rightarrow> [])
                            else [])
                     in auth_loop w base_url rest (endpoints_found + 1) issues2))
             else auth_loop w base_url rest endpoints_found issues)"

text \<open>
  \<^verbatim>\<open>check_auth_endpoints\<close>. After a \<^verbatim>\<open>RequestException\<close> the count of tested endpoints is
  still 0 and \<open>secure\<close> still false, whatever was found before.
\<close>

definition check_auth_endpoints :: "auth_world \<Rightarrow> string \<Rightarrow> py_exception + auth_result" where
  "check_auth_endpoints w base_url =
     (case auth_loop w base_url AUTH_TEST_ENDPOINTS 0 [] of
        Inr (endpoints_found, issues) \<Rightarrow>
          Inr \<lparr>auth_secure = (issues = []), endpoints_tested = endpoints_found,
               auth_issues = issues, auth_error = None\<rparr>
      | Inl (RequestException m, issues) \<Rightarrow>
          Inr \<lparr>auth_secure = False, endpoints_tested = 0, auth_issues = issues,
               auth_error = Some m\<rparr>
      | Inl (e, issues) \<Rightarrow> Inl e)"

text \<open>
  A cookie of the response, as far as the check reads it: its name, whether it carries
  the attribute \<open>HttpOnly\<close>, its rendering as a string, and its \<open>secure\<close> flag.
\<close>

record cookie =
  cookie_name :: string
  has_httponly_attr :: bool
  cookie_text :: string
  cookie_secure :: bool

record flag_result =
  flags_secure :: bool
  flag_issues :: "string list"
  flag_error :: "string option"

definition cookie_issues :: "string \<Rightarrow> cookie \<Rightarrow> string list" where
  "cookie_issues url c =
     (let httponly = (has_httponly_attr c \<or> contains (cookie_text c) ''HttpOnly'')
      in (if \<not> httponly
          then [''Cookie '' @ quoted (cookie_name c) @ '' missing HttpOnly flag''] else []) @
         (if \<not> cookie_secure c \<and> startswith url ''https''
          then [''Cookie '' @ quoted (cookie_name c) @ '' missing Secure flag''] else []))"

text \<open>
  \<^verbatim>\<open>check_cookie_security\<close>, given the cookies of the response or the exception of the
  request. \<open>secure\<close> starts as true and is set only at the end of the \<^verbatim>\<open>try\<close> block, so it
  stays true when the request raises.
\<close>

definition check_cookie_security :: "string \<Rightarrow> py_exception + cookie list \<Rightarrow> flag_result" where
  "check_cookie_security url outcome =
     (let result = \<lparr>flags_secure = True, flag_issues = [], flag_error = None\<rparr>
      in case outcome of
           Inr cookies \<Rightarrow>
             (let issues = concat (map (cookie_issues url) cookies)
              in result\<lparr>flag_issues := issues, flags_secure := (issues = [])\<rparr>)
         | Inl e \<Rightarrow> result\<lparr>flag_error := Some (str_exception e)\<rparr>)"

definition sensitive_headers :: "string list" where
  "sensitive_headers = [''Server'', ''X-Powered-By'', ''X-AspNet-Version'', ''X-Runtime'']"

definition secret_patterns :: "(string \<times> pattern) list" where
  "secret_patterns =
     [(''AWS Key'', AwsKey), (''Generic Secret'', GenericSecret), (''Private Key'', PrivateKey)]"

text \<open>\<^verbatim>\<open>check_sensitive_info_exposure\<close>; here too \<open>secure\<close> starts as true.\<close>

definition check_sensitive_info_exposure :: "py_library \<Rightarrow> reply \<Rightarrow> flag_result" where
  "check_sensitive_info_exposure lib rep =
     (let result = \<lparr>flags_secure = True, flag_issues = [], flag_error = None\<rparr>
      in case rep of
           Replied resp t \<Rightarrow>
             (let header_issues =
                    concat (map (\<lambda>h.
                      if ci_contains (headers resp) h \<and>
                         re_search lib Digit (ci_get (headers resp) h [])
                      then [''Verbose header exposure: '' @ h @ '': '' @
                              ci_get (headers resp) h []]
                      else []) sensitive_headers);
                  body_issues =
                    concat (map (\<lambda>entry.
                      if re_search lib (snd entry) (body_text resp)
                      then [''Potential '' @ fst entry @ '' exposed in response body'']
                      else []) secret_patterns);
                  issues = header_issues @ body_issues
              in result\<lparr>flag_issues := issues, flags_secure := (issues = [])\<rparr>)
         | Failed e \<Rightarrow> result\<lparr>flag_error := Some (str_exception e)\<rparr>)"

text \<open>
  The environment of a scan: the reply to the first \<^verbatim>\<open>HEAD\<close> of the base URL, the outcome
  of parsing the URL and of reading its port, the TLS connection, and the replies to the
  requests of the single checks.
\<close>

record scan_world =
  reach_reply :: reply
  base_parsed :: "py_exception + url_parts"
  base_port :: "py_exception + int option"
  tls_connection :: tls_outcome
  headers_reply :: reply
  cors_reply :: reply
  auth_probes :: auth_world
  cookie_outcome :: "py_exception + cookie list"
  exposure_reply :: reply

text \<open>The tests of the SSL/TLS part of the scan, appended to the results so far.\<close>

definition ssl_tests :: "string \<Rightarrow> ssl_result \<Rightarrow> section_result \<Rightarrow> section_result" where
  "ssl_tests base_url ssl_results res =
     (let https = startswith base_url ''https://'';
          r1 = (if https
                then record_pass (status_test ''HTTPS check'' ''PASS''
                                    ''Application is using HTTPS'') res
                else record_fail (status_test ''HTTPS check'' ''FAIL''
                                    ''Application is not using HTTPS'') res)
      in if https then
           (let configured =
                  status_test ''SSL/TLS configuration''
                    (if ssl_secure ssl_results then ''PASS'' else ''FAIL'')
                    (if ssl_secure ssl_results then ''SSL/TLS is properly configured''
                     else ''SSL/TLS has issues: '' @ join '', '' (ssl_issues ssl_results));
                r2 = (if ssl_secure ssl_results then record_pass configured r1
                      else record_fail configured r1)
            in case cert_days_remaining ssl_results of
                 None \<Rightarrow> r2
               | Some days_remaining \<Rightarrow>
                   (let msg = ''Certificate expires in '' @ str_int days_remaining @ '' days''
                    in if days_remaining \<ge> 30
                       then record_pass (status_test ''SSL certificate expiration'' ''PASS'' msg) r2
                       else if days_remaining \<ge> 7
                       then record_only (status_test ''SSL certificate expiration'' ''WARNING'' msg) r2
                       else record_fail (status_test ''SSL certificate expiration'' ''FAIL'' msg) r2))
         else r1)"

definition critical_headers :: "string list" where
  "critical_headers =
     [''Strict-Transport-Security'', ''Content-Security-Policy'', ''X-Content-Type-Options'']"

text \<open>The graded test of the headers, then one test for each critical header that is absent.\<close>

definition header_tests ::
  "py_runtime \<Rightarrow> string \<Rightarrow> header_result \<Rightarrow> section_result \<Rightarrow> section_result" where
  "header_tests rt scan_severity header_results res =
     (let pct = (case score_percentage header_results of None \<Rightarrow> 0 | Some p \<Rightarrow> p);
          grade = (if pct \<ge> 90 then ''A'' else if pct \<ge> 70 then ''B''
                   else if pct \<ge> 50 then ''C'' else ''F'');
          verdict = (if pct \<ge> 90 then ''PASS''
                     else if pct \<ge> 70
                     then (if scan_severity = ''high'' then ''WARNING'' else ''PASS'')
                     else if pct \<ge> 50 then ''WARNING'' else ''FAIL'');
          graded = status_test ''Security headers check'' verdict
                     (''Security headers score: '' @ format_fixed rt 1 pct @
                        ''% (Grade '' @ grade @ '')'');
          r1 = (if verdict = ''PASS'' then record_pass graded res
                else if verdict = ''FAIL'' then record_fail graded res
                else record_only graded res)
      in foldl (\<lambda>acc header.
           if header \<notin> set (map fst (headers_present header_results)) then
             (if scan_severity \<in> set [''medium'', ''high'']
              then record_fail (status_test (''Critical security header: '' @ header) ''FAIL''
                                  (''Critical security header '' @ quoted header @
                                     '' is missing'')) acc
              else record_only (status_test (''Critical security header: '' @ header) ''WARNING''
                                  (''Critical security header '' @ quoted header @
                                     '' is missing'')) acc)
           else acc) r1 critical_headers)"

definition cors_tests :: "cors_result \<Rightarrow> section_result \<Rightarrow> section_result" where
  "cors_tests cors_results res =
     (if cors_secure cors_results
      then record_pass (status_test ''CORS configuration check'' ''PASS''
                          ''CORS is properly configured'') res
      else record_only (status_test ''CORS configuration check'' ''WARNING''
                          (''CORS configuration issues: '' @
                             join '', '' (cors_issues cors_results))) res)"

text \<open>
  The tests of the authentication endpoints: none when no endpoint was tested; otherwise
  the summary test and one failing test for each issue.
\<close>

definition auth_endpoint_tests :: "auth_result \<Rightarrow> section_result \<Rightarrow> section_result" where
  "auth_endpoint_tests auth_results res =
     (if endpoints_tested auth_results > 0 then
        (let summary_test =
               status_test ''Authentication endpoints check''
                 (if auth_secure auth_results then ''PASS'' else ''FAIL'')
                 (if auth_secure auth_results
                  then ''Tested '' @ str_int (endpoints_tested auth_results) @
                         '' auth endpoints, all secure''
                  else ''Found '' @ str_nat (length (auth_issues auth_results)) @
                         '' issues in auth endpoints'');
             r1 = (if auth_secure auth_results then record_pass summary_test res
                   else record_fail summary_test res)
         in foldl (\<lambda>acc issue.
              record_fail (status_test ''Authentication security issue'' ''FAIL'' issue) acc)
              r1 (auth_issues auth_results))
      else res)"

definition cookie_tests :: "flag_result \<Rightarrow> section_result \<Rightarrow> section_result" where
  "cookie_tests cookie_results res =
     (if flags_secure cookie_results
      then record_pass (status_test ''Cookie security flags'' ''PASS''
                          ''Cookies are securely configured'') res
      else record_only (status_test ''Cookie security flags'' ''WARNING''
                          (''Cookie issues: '' @ join '', '' (flag_issues cookie_results))) res)"

definition exposure_tests :: "flag_result \<Rightarrow> section_result \<Rightarrow> section_result" where
  "exposure_tests exposure_results res =
     (if flags_secure exposure_results
      then record_pass (status_test ''Information disclosure scan'' ''PASS''
                          ''No sensitive info exposure detected'') res
      else record_fail (status_test ''Information disclosure scan'' ''FAIL''
                          (''Exposure issues: '' @
                             join '', '' (flag_issues exposure_results))) res)"

text \<open>
  What the outer \<^verbatim>\<open>except Exception\<close> of the scan makes of the results so far.
\<close>

definition scan_failed :: "py_exception \<Rightarrow> section_result \<Rightarrow> section_result" where
  "scan_failed e res = res\<lparr>sr_passed := False, sr_error := Some (str_exception e)\<rparr>"

text \<open>
  The parts of the scan that can raise, each from the results so far to the results with
  its tests, or to the exception together with the results at that moment.
\<close>

definition ssl_phase ::
  "bool \<Rightarrow> string \<Rightarrow> scan_world \<Rightarrow> section_result
     \<Rightarrow> (py_exception \<times> section_result) + section_result" where
  "ssl_phase check_ssl base_url w res =
     (if check_ssl then
        (case check_ssl_tls (base_parsed w) (base_port w) (tls_connection w) of
           Inl e \<Rightarrow> Inl (e, res)
         | Inr ssl_results \<Rightarrow> Inr (ssl_tests base_url ssl_results res))
      else Inr res)"

definition headers_phase ::
  "py_runtime \<Rightarrow> bool \<Rightarrow> string \<Rightarrow> scan_world \<Rightarrow> section_result
     \<Rightarrow> (py_exception \<times> section_result) + section_result" where
  "headers_phase rt check_headers scan_severity w res =
     (if check_headers then
        (case check_security_headers (headers_reply w) of
           Inl e \<Rightarrow> Inl (e, res)
         | Inr header_results \<Rightarrow>
             (let r1 = header_tests rt scan_severity header_results res
              in case check_cors_configuration (cors_reply w) of
                   Inl e \<Rightarrow> Inl (e, r1)
                 | Inr cors_results \<Rightarrow> Inr (cors_tests cors_results r1)))
      else Inr res)"

definition auth_phase ::
  "bool \<Rightarrow> string \<Rightarrow> scan_world \<Rightarrow> section_result
     \<Rightarrow> (py_exception \<times> section_result) + section_result" where
  "auth_phase check_auth base_url w res =
     (if check_auth then
        (case check_auth_endpoints (auth_probes w) base_url of
           Inl e \<Rightarrow> Inl (e, res)
         | Inr auth_results \<Rightarrow> Inr (auth_endpoint_tests auth_results res))
      else Inr res)"

text \<open>The two checks at the end of the scan, which catch every exception themselves.\<close>

definition closing_phase :: "py_library \<Rightarrow> string \<Rightarrow> scan_world \<Rightarrow> section_result \<Rightarrow> section_result" where
  "closing_phase lib base_url w res =
     exposure_tests (check_sensitive_info_exposure lib (exposure_reply w))
       (cookie_tests (check_cookie_security base_url (cookie_outcome w)) res)"

text \<open>
  \<^verbatim>\<open>run_security_scan\<close>. A \<^verbatim>\<open>RequestException\<close> of the first request gives the single
  failing test and ends the scan; any other exception inside the outer \<^verbatim>\<open>try\<close> ends it
  with the tests appended so far and the error.
\<close>

definition run_security_scan ::
  "py_runtime \<Rightarrow> py_library \<Rightarrow> string \<Rightarrow> string \<Rightarrow> bool \<Rightarrow> bool \<Rightarrow> bool \<Rightarrow> scan_world
     \<Rightarrow> section_result" where
  "run_security_scan rt lib base_url scan_severity check_ssl check_headers check_auth w =
     (case reach_reply w of
        Failed (RequestException m) \<Rightarrow>
          record_fail (status_test ''Base URL accessibility check'' ''FAIL''
                         (''Base URL is not accessible: '' @ m)) empty_result
      | Failed e \<Rightarrow> scan_failed e empty_result
      | Replied resp t \<Rightarrow>
          (let r1 = record_pass (status_test ''Base URL accessibility check'' ''PASS''
                                   ''Base URL is accessible'') empty_result
           in case ssl_phase check_ssl base_url w r1 of
                Inl (e, r) \<Rightarrow> scan_failed e r
              | Inr r2 \<Rightarrow>
                  (case headers_phase rt check_headers scan_severity w r2 of
                     Inl (e, r) \<Rightarrow> scan_failed e r
                   | Inr r3 \<Rightarrow>
                       (case auth_phase check_auth base_url w r3 of
                          Inl (e, r) \<Rightarrow> scan_failed e r
                        | Inr r4 \<Rightarrow>
                            (let r5 = closing_phase lib base_url w r4
                             in r5\<lparr>sr_passed := (sr_failed_tests r5 = 0)\<rparr>)))))"

section \<open>The monitoring validator (monitoring\_tests/monitoring\_validator.py)\<close>

text \<open>
  The result of one group of checks, \<^verbatim>\<open>{"name": ..., "passed": ..., "tests": [...]}\<close>, as
  the monitoring, logging and deployment checkers build it.
\<close>

record test_group =
  group_name :: string
  group_passed :: bool
  group_tests :: "test list"

text \<open>What \<^verbatim>\<open>validate_monitoring\<close> and \<^verbatim>\<open>validate_logging\<close> return.\<close>

record counted_result =
  cr_passed :: bool
  cr_total :: int
  cr_passed_tests :: int
  cr_tests :: "test list"






text \<open>The counts both validators take over all their tests.\<close>

definition count_status :: "string \<Rightarrow> test list \<Rightarrow> int" where
  "count_status st ts = int (length (filter (\<lambda>t. status t = PStr st) ts))"

definition counted :: "test list \<Rightarrow> counted_result" where
  "counted all_tests =
     \<lparr>cr_passed = (count_status ''FAIL'' all_tests = 0),
      cr_total = int (length all_tests),
      cr_passed_tests = count_status ''PASS'' all_tests,
      cr_tests = all_tests\<rparr>"



section \<open>The file system\<close>

text \<open>
  What the logging and the deployment checker ask of the file system, which is taken not
  to change during a check: whether a path exists and whether it is a directory, the
  names in a directory, the modification time of a path, the matches of a glob pattern,
  and what reading a file gives: the whole text, its first \<open>n\<close> characters, its first
  line, or the JSON value it holds. Each of the calls that can raise has its exception
  as an outcome.
\<close>

record file_system =
  fs_exists :: "string \<Rightarrow> bool"
  fs_isdir :: "string \<Rightarrow> bool"
  fs_listdir :: "string \<Rightarrow> py_exception + string list"
  fs_getmtime :: "string \<Rightarrow> py_exception + real"
  fs_glob :: "string \<Rightarrow> string list"
  fs_read :: "string \<Rightarrow> py_exception + string"
  fs_read_prefix :: "nat \<Rightarrow> string \<Rightarrow> py_exception + string"
  fs_readline :: "string \<Rightarrow> py_exception + string"
  fs_load_json :: "string \<Rightarrow> py_exception + pyval"

text \<open>\<^verbatim>\<open>s.endswith(p)\<close>, \<^verbatim>\<open>os.path.join(a, b)\<close> and \<^verbatim>\<open>os.path.basename(p)\<close>.\<close>

definition endswith :: "string \<Rightarrow> string \<Rightarrow> bool" where
  "endswith s p = startswith (rev s) (rev p)"

definition path_join :: "string \<Rightarrow> string \<Rightarrow> string" where
  "path_join a b =
     (if startswith b ''/'' then b
      else if a = [] \<or> endswith a ''/'' then a @ b
      else a @ ''/'' @ b)"

definition basename :: "string \<Rightarrow> string" where
  "basename p = rev (takeWhile (\<lambda>c. c \<noteq> CHR ''/'') (rev p))"

section \<open>The logging validator (logging\_tests/logging\_validator.py)\<close>

text \<open>
  \<^verbatim>\<open>check_logging_config\<close>: the first of the candidate files that exists is examined; when
  it cannot be read, the test of the log level is left out.
\<close>

definition check_logging_config :: "file_system \<Rightarrow> string option \<Rightarrow> test_group" where
  "check_logging_config fs config_file =
     (let result = \<lparr>group_name = ''Logging Configuration'', group_passed = False,
                     group_tests = []\<rparr>;
          config_files =
            (case config_file of
               None \<Rightarrow> [''logging.json'', ''logging.yaml'', ''logging.conf'']
             | Some f \<Rightarrow>
                 if f = [] then [''logging.json'', ''logging.yaml'', ''logging.conf''] else [f])
      in case find (fs_exists fs) config_files of
           None \<Rightarrow>
             result\<lparr>group_tests :=
               [status_test ''Logging configuration exists'' ''WARNING''
                  ''No dedicated logging configuration file found'']\<rparr>
         | Some f \<Rightarrow>
             result\<lparr>group_tests :=
               status_test ''JSON logging configuration''
                 (if endswith f ''.json'' then ''PASS'' else ''WARNING'')
                 (''Using '' @ f @ '' for logging configuration'') #
               (case fs_read fs f of
                  Inl e \<Rightarrow> []
                | Inr text_read \<Rightarrow>
                    (let content = upper text_read
                     in if contains content ''DEBUG'' \<and> \<not> contains content ''LOG_LEVEL''
                        then [status_test ''Production log level'' ''WARNING''
                                ''DEBUG log level detected in configuration'']
                        else [status_test ''Production log level'' ''PASS''
                                ''No hardcoded DEBUG level in configuration'']))\<rparr>)"

text \<open>
  The names in the log directory that end in \<^verbatim>\<open>.log\<close>. Listing the directory is not
  guarded, so its exception leaves the check.
\<close>

definition log_files_of :: "file_system \<Rightarrow> string \<Rightarrow> py_exception + string list" where
  "log_files_of fs log_dir =
     (case fs_listdir fs log_dir of
        Inl e \<Rightarrow> Inl e
      | Inr names \<Rightarrow> Inr (filter (\<lambda>f. endswith f ''.log'') names))"

text \<open>
  \<^verbatim>\<open>max(paths, key=os.path.getmtime)\<close>: the key of every path is taken in order, and the
  first path with the greatest key is the result.
\<close>

fun keyed :: "(string \<Rightarrow> py_exception + real) \<Rightarrow> string list \<Rightarrow> py_exception + (string \<times> real) list" where
  "keyed key [] = Inr []"
| "keyed key (p # ps) =
     (case key p of
        Inl e \<Rightarrow> Inl e
      | Inr k \<Rightarrow>
          (case keyed key ps of
             Inl e \<Rightarrow> Inl e
           | Inr rest \<Rightarrow> Inr ((p, k) # rest)))"

fun greatest :: "string \<times> real \<Rightarrow> (string \<times> real) list \<Rightarrow> string" where
  "greatest best [] = fst best"
| "greatest best (x # xs) = greatest (if snd x > snd best then x else best) xs"

definition max_by_mtime :: "file_system \<Rightarrow> string list \<Rightarrow> py_exception + string" where
  "max_by_mtime fs paths =
     (case keyed (fs_getmtime fs) paths of
        Inl e \<Rightarrow> Inl e
      | Inr [] \<Rightarrow> Inl (ValueError ''max() arg is an empty sequence'')
      | Inr (first # others) \<Rightarrow> Inr (greatest first others))"

text \<open>
  \<^verbatim>\<open>check_log_files\<close>. Choosing the latest file is not guarded either; reading its first
  line is, and a file that cannot be read leaves no test.
\<close>

definition check_log_files ::
  "py_library \<Rightarrow> file_system \<Rightarrow> string \<Rightarrow> py_exception + test_group" where
  "check_log_files lib fs log_dir =
     (let result = \<lparr>group_name = ''Log File Analysis'', group_passed = False,
                     group_tests = []\<rparr>
      in if \<not> fs_isdir fs log_dir then
           Inr (result\<lparr>group_tests :=
                  [status_test ''Log directory exists'' ''WARNING''
                     (''Log directory '' @ quoted log_dir @ '' not found'')]\<rparr>)
         else
           (case log_files_of fs log_dir of
              Inl e \<Rightarrow> Inl e
            | Inr log_files \<Rightarrow>
                if log_files = [] then
                  Inr (result\<lparr>group_tests :=
                         [status_test ''Log files exist'' ''PASS''
                            ''No log files found in directory (clean state)'']\<rparr>)
                else
                  (case max_by_mtime fs (map (path_join log_dir) log_files) of
                     Inl e \<Rightarrow> Inl e
                   | Inr latest_log \<Rightarrow>
                       (case fs_readline fs latest_log of
                          Inl e \<Rightarrow> Inr result
                        | Inr line \<Rightarrow>
                            (let is_json = json_loads_ok lib (strip line)
                             in Inr (result\<lparr>group_tests :=
                                  [status_test ''JSON log format verification''
                                     (if is_json then ''PASS'' else ''WARNING'')
                                     (if is_json
                                      then ''Log file '' @ quoted (basename latest_log) @
                                             '' is in JSON format''
                                      else ''Log file '' @ quoted (basename latest_log) @
                                             '' is NOT in JSON format (recommended for production)'')]\<rparr>))))))"

definition pii_patterns :: "(string \<times> pattern) list" where
  "pii_patterns =
     [(''Credit Card'', CreditCard), (''Social Security Number'', SocialSecurityNumber),
      (''Password/Secret'', GenericSecret)]"

text \<open>The issues of one log file; a file that cannot be read has none.\<close>

definition pii_issues :: "py_library \<Rightarrow> file_system \<Rightarrow> string \<Rightarrow> string \<Rightarrow> string list" where
  "pii_issues lib fs log_dir log_file =
     (case fs_read_prefix fs 10000 (path_join log_dir log_file) of
        Inl e \<Rightarrow> []
      | Inr content \<Rightarrow>
          concat (map (\<lambda>entry.
            if re_search lib (snd entry) content
            then [''Potential '' @ fst entry @ '' found in '' @ quoted log_file]
            else []) pii_patterns))"

definition check_pii_in_logs ::
  "py_library \<Rightarrow> file_system \<Rightarrow> string \<Rightarrow> py_exception + test_group" where
  "check_pii_in_logs lib fs log_dir =
     (let result = \<lparr>group_name = ''PII and Secret Scan'', group_passed = True,
                     group_tests = []\<rparr>
      in if \<not> fs_isdir fs log_dir then Inr result
         else
           (case log_files_of fs log_dir of
              Inl e \<Rightarrow> Inl e
            | Inr log_files \<Rightarrow>
                if log_files = [] then Inr result
                else
                  (let issues = concat (map (pii_issues lib fs log_dir) log_files)
                   in Inr (result\<lparr>group_tests :=
                             [status_test ''Log PII data check''
                                (if issues = [] then ''PASS'' else ''FAIL'')
                                (if issues = [] then ''No PII or secrets found in logs''
                                 else ''Issues found: '' @ join '', '' issues)],
                           group_passed := (issues = [])\<rparr>))))"

text \<open>\<^verbatim>\<open>validate_logging\<close>, which guards none of its three calls.\<close>

definition validate_logging ::
  "py_library \<Rightarrow> file_system \<Rightarrow> string \<Rightarrow> string option \<Rightarrow> py_exception + counted_result" where
  "validate_logging lib fs log_dir config_file =
     (let config_result = check_logging_config fs config_file
      in case check_log_files lib fs log_dir of
           Inl e \<Rightarrow> Inl e
         | Inr file_result \<Rightarrow>
             (case check_pii_in_logs lib fs log_dir of
                Inl e \<Rightarrow> Inl e
              | Inr pii_result \<Rightarrow>
                  Inr (counted (group_tests config_result @ group_tests file_result @
                                group_tests pii_result))))"

section \<open>The deployment validator (deployment\_checks/deployment\_validator.py)\<close>





















section \<open>The sections of the orchestrator (validate\_production\_readiness.py)\<close>











section \<open>Sample environments of a whole run\<close>


text \<open>
  A library that finds no pattern; a project directory with a \<^verbatim>\<open>package.json\<close> and a log
  directory whose files cannot be opened; a service that answers the first request of the
  scan and then no other; and a run against the service of the earlier samples.
\<close>

definition sample_library :: py_library where
  "sample_library =
     \<lparr>re_search = (\<lambda>p s. False), re_findall = (\<lambda>p s. 0), json_loads_ok = (\<lambda>s. False)\<rparr>"


definition timed_out :: reply where
  "timed_out = Failed (RequestException ''timed out'')"

definition silent_scan_world :: scan_world where
  "silent_scan_world =
     \<lparr>reach_reply = Replied ok_response 3,
      base_parsed = Inr \<lparr>url_scheme = ''https'', url_netloc = ''h'', url_path = [],
                          url_query = []\<rparr>,
      base_port = Inr None,
      tls_connection = SocketError ''timed out'',
      headers_reply = timed_out,
      cors_reply = timed_out,
      auth_probes = \<lparr>auth_head = (\<lambda>u. timed_out), auth_burst = (\<lambda>u k. timed_out),
                      auth_burst_seconds = (\<lambda>u. 0), auth_post = (\<lambda>u. timed_out)\<rparr>,
      cookie_outcome = Inl (RequestException ''timed out''),
      exposure_reply = timed_out\<rparr>"



section \<open>Properties of the tally and the summary\<close>

lemma count_test_counters:
  "total_tests (fst (count_test v t)) = total_tests v + 1"
  "passed_tests (fst (count_test v t)) = passed_tests v + (if counts_as_pass t then 1 else 0)"
  "failed_tests (fst (count_test v t)) = failed_tests v + (if counts_as_fail t then 1 else 0)"
  "warning_tests (fst (count_test v t)) = warning_tests v + (if counts_as_warning t then 1 else 0)"
  "start_time (fst (count_test v t)) = start_time v"
  by (simp_all add: count_test_def counts_as_pass_def counts_as_fail_def counts_as_warning_def Let_def)

lemma update_test_counts_counters:
  "total_tests (fst (update_test_counts v ts)) = total_tests v + int (length ts)"
  "passed_tests (fst (update_test_counts v ts)) = passed_tests v + int (length (filter counts_as_pass ts))"
  "failed_tests (fst (update_test_counts v ts)) = failed_tests v + int (length (filter counts_as_fail ts))"
  "warning_tests (fst (update_test_counts v ts)) = warning_tests v + int (length (filter counts_as_warning ts))"
  "start_time (fst (update_test_counts v ts)) = start_time v"
proof (induction ts arbitrary: v)
  case Nil
  { case 1 show ?case by simp }
  { case 2 show ?case by simp }
  { case 3 show ?case by simp }
  { case 4 show ?case by simp }
  { case 5 show ?case by simp }
next
  case (Cons t ts)
  have step: "fst (update_test_counts v (t # ts)) = fst (update_test_counts (fst (count_test v t)) ts)" for v
    by (simp split: prod.splits)
  { case 1 show ?case unfolding step by (simp add: Cons.IH count_test_counters) }
  { case 2 show ?case unfolding step by (simp add: Cons.IH count_test_counters) }
  { case 3 show ?case unfolding step by (simp add: Cons.IH count_test_counters) }
  { case 4 show ?case unfolding step by (simp add: Cons.IH count_test_counters) }
  { case 5 show ?case unfolding step by (simp add: Cons.IH count_test_counters) }
qed

lemma tally_counters:
  "total_tests (tally v calls) = total_tests v + int (length (concat calls))"
  "passed_tests (tally v calls) = passed_tests v + int (length (filter counts_as_pass (concat calls)))"
  "failed_tests (tally v calls) = failed_tests v + int (length (filter counts_as_fail (concat calls)))"
  "warning_tests (tally v calls) = warning_tests v + int (length (filter counts_as_warning (concat calls)))"
  "start_time (tally v calls) = start_time v"
  by (induction calls arbitrary: v) (simp_all add: update_test_counts_counters)


lemma add_summary_Inr:
  "add_summary v now =
     Inr \<lparr>summary_start_time = start_time v,
          duration_seconds = now - start_time v,
          tests_passed = passed_tests v,
          tests_failed = failed_tests v,
          tests_warned = warning_tests v,
          summary_total_tests = total_tests v,
          pass_percentage =
            (if total_tests v > 0
             then real_of_int (passed_tests v) / real_of_int (total_tests v) * 100 else 0),
          production_ready = (failed_tests v = 0)\<rparr>"
  by (simp add: add_summary_def py_truediv_def)

lemma tally_init_counters:
  "total_tests (tally (init_validator t0) calls) = int (length (concat calls))"
  "passed_tests (tally (init_validator t0) calls) = int (length (filter counts_as_pass (concat calls)))"
  "failed_tests (tally (init_validator t0) calls) = int (length (filter counts_as_fail (concat calls)))"
  "warning_tests (tally (init_validator t0) calls) = int (length (filter counts_as_warning (concat calls)))"
  by (simp_all add: tally_counters init_validator_def)

text \<open>
  C8: for every run, computing the summary returns a summary and raises no
  \<open>ZeroDivisionError\<close>; its \<open>pass_percentage\<close> is 0 when \<open>total_tests\<close> is 0 and
  \<open>tests_passed / total_tests * 100\<close> otherwise. The division is the exact one of the
  reals, where Python rounds to a double.
\<close>

theorem pass_percentage_guarded:
  "\<exists>s. add_summary (tally (init_validator t0) calls) now = Inr s \<and>
       (summary_total_tests s = 0 \<longrightarrow> pass_percentage s = 0) \<and>
       (summary_total_tests s \<noteq> 0 \<longrightarrow>
          pass_percentage s =
            real_of_int (tests_passed s) / real_of_int (summary_total_tests s) * 100)"
proof -
  let ?v = "tally (init_validator t0) calls"
  have "0 \<le> total_tests ?v" by (simp add: tally_init_counters)
  then show ?thesis
    by (simp add: add_summary_Inr)
qed

lemma example_counts:
  "tally (init_validator 0) [] =
     \<lparr>start_time = 0, passed_tests = 0, failed_tests = 0, warning_tests = 0, total_tests = 0\<rparr>"
  "tally (init_validator 0) [[pass_test, fail_test]] =
     \<lparr>start_time = 0, passed_tests = 1, failed_tests = 1, warning_tests = 0, total_tests = 2\<rparr>"
  by (simp_all add: init_validator_def count_test_def pass_test_def fail_test_def Let_def)

theorem pass_percentage_guarded_witness:
  "(\<exists>s. add_summary (tally (init_validator 0) []) 1 = Inr s \<and>
        summary_total_tests s = 0 \<and> pass_percentage s = 0) \<and>
   (\<exists>s. add_summary (tally (init_validator 0) [[pass_test, fail_test]]) 1 = Inr s \<and>
        summary_total_tests s = 2 \<and> pass_percentage s = 50)"
  using pass_percentage_guarded [of 0 "[]" 1]
    pass_percentage_guarded [of 0 "[[pass_test, fail_test]]" 1]
  unfolding example_counts by (auto simp add: add_summary_Inr)

lemma run_validations_tally:
  "run_validations t0 validate_sections out now =
     add_summary (tally (init_validator t0) (calls_of validate_sections out)) now"
  by (simp add: run_validations_def)

lemma no_fail_filter:
  assumes "\<forall>t \<in> set ts. status t \<noteq> PStr ''FAIL'' \<and> passed t \<noteq> PBool False"
  shows "filter counts_as_fail ts = []"
  using assms by (auto simp add: filter_empty_conv counts_as_fail_def)

text \<open>
  C1: for every run, \<open>production_ready\<close> holds exactly when \<open>tests_failed\<close> is 0, where
  \<open>tests_failed\<close> is the number of tests the tally counted as failed. Overwriting the
  warning counter with any value leaves \<open>production_ready\<close> as it is, and a run none of
  whose tests has the status FAIL or \<open>passed\<close> False is production ready whatever the
  number of its warnings.
\<close>

theorem production_ready_iff_no_failed:
  "\<exists>s. add_summary (tally (init_validator t0) calls) now = Inr s \<and>
       (production_ready s \<longleftrightarrow> tests_failed s = 0) \<and>
       tests_failed s = int (length (filter counts_as_fail (concat calls))) \<and>
       (\<forall>w. \<exists>s'. add_summary ((tally (init_validator t0) calls)\<lparr>warning_tests := w\<rparr>) now = Inr s' \<and>
               tests_warned s' = w \<and> production_ready s' = production_ready s) \<and>
       ((\<forall>t \<in> set (concat calls). status t \<noteq> PStr ''FAIL'' \<and> passed t \<noteq> PBool False) \<longrightarrow>
          production_ready s)"
proof -
  let ?v = "tally (init_validator t0) calls"
  obtain s where s: "add_summary ?v now = Inr s"
    and ready: "production_ready s = (failed_tests ?v = 0)"
    and failed: "tests_failed s = failed_tests ?v"
    by (simp add: add_summary_Inr)
  have count: "failed_tests ?v = int (length (filter counts_as_fail (concat calls)))"
    by (rule tally_init_counters)
  have warned: "\<exists>s'. add_summary (?v\<lparr>warning_tests := w\<rparr>) now = Inr s' \<and>
                  tests_warned s' = w \<and> production_ready s' = production_ready s" for w
    by (simp add: add_summary_Inr ready)
  have clean: "production_ready s"
    if "\<forall>t \<in> set (concat calls). status t \<noteq> PStr ''FAIL'' \<and> passed t \<noteq> PBool False"
    using no_fail_filter [OF that] by (simp add: ready count)
  from s ready failed count warned clean show ?thesis by auto
qed

lemma example_warning_run:
  "tally (init_validator 0) [[warning_test, pass_test], [warning_test]] =
     \<lparr>start_time = 0, passed_tests = 1, failed_tests = 0, warning_tests = 2, total_tests = 3\<rparr>"
  by (simp add: init_validator_def count_test_def pass_test_def warning_test_def Let_def)

theorem production_ready_iff_no_failed_witness:
  "\<exists>s. add_summary (tally (init_validator 0) [[warning_test, pass_test], [warning_test]]) 1 = Inr s \<and>
       tests_warned s = 2 \<and> tests_failed s = 0 \<and> production_ready s"
proof -
  have clean: "\<forall>t \<in> set (concat [[warning_test, pass_test], [warning_test]]).
                 status t \<noteq> PStr ''FAIL'' \<and> passed t \<noteq> PBool False"
    by (simp add: warning_test_def pass_test_def)
  from production_ready_iff_no_failed [of 0 "[[warning_test, pass_test], [warning_test]]" 1] clean
  obtain s where "add_summary (tally (init_validator 0) [[warning_test, pass_test], [warning_test]]) 1 = Inr s"
    and "production_ready s" and "production_ready s \<longleftrightarrow> tests_failed s = 0"
    by blast
  moreover from this(1) have "tests_warned s = 2"
    unfolding example_warning_run by (auto simp add: add_summary_Inr)
  ultimately show ?thesis by auto
qed

lemma unclassified_count_test:
  assumes "unclassified u"
  shows "count_test v u = (v\<lparr>total_tests := total_tests v + 1\<rparr>, u)"
  using assms by (simp add: unclassified_def count_test_def Let_def)

lemma unclassified_not_counted:
  assumes "unclassified u"
  shows "\<not> counts_as_pass u" "\<not> counts_as_fail u" "\<not> counts_as_warning u"
  using assms
  by (simp_all add: unclassified_def counts_as_pass_def counts_as_fail_def counts_as_warning_def)

lemma filter_length_le_sum3:
  assumes "\<And>x. \<not> (P x \<and> Q x)" "\<And>x. \<not> (P x \<and> R x)" "\<And>x. \<not> (Q x \<and> R x)"
  shows "length (filter P xs) + length (filter Q xs) + length (filter R xs) \<le> length xs"
  using assms by (induction xs) auto

lemma classified_le_total:
  "passed_tests (tally (init_validator t0) calls) + failed_tests (tally (init_validator t0) calls) +
     warning_tests (tally (init_validator t0) calls) \<le> total_tests (tally (init_validator t0) calls)"
proof -
  have "length (filter counts_as_pass (concat calls)) + length (filter counts_as_fail (concat calls)) +
          length (filter counts_as_warning (concat calls)) \<le> length (concat calls)"
    by (rule filter_length_le_sum3) (auto simp add: counts_as_fail_def counts_as_warning_def)
  then show ?thesis
    by (simp add: tally_init_counters)
qed

lemma percentage_diluted:
  fixes p n :: int
  assumes "0 \<le> p" "p \<le> n"
  shows "(if 0 < n + 1 then real_of_int p / real_of_int (n + 1) * 100 else 0)
           \<le> (if 0 < n then real_of_int p / real_of_int n * 100 else 0)"
    and "(if 0 < n + 1 then real_of_int p / real_of_int (n + 1) * 100 else 0)
           < (if 0 < n then real_of_int p / real_of_int n * 100 else 0) \<longleftrightarrow> 0 < p"
proof -
  show "(if 0 < n + 1 then real_of_int p / real_of_int (n + 1) * 100 else 0)
           \<le> (if 0 < n then real_of_int p / real_of_int n * 100 else 0)"
    using assms by (auto simp add: field_simps)
  show "(if 0 < n + 1 then real_of_int p / real_of_int (n + 1) * 100 else 0)
           < (if 0 < n then real_of_int p / real_of_int n * 100 else 0) \<longleftrightarrow> 0 < p"
    using assms by (auto simp add: field_simps)
qed


text \<open>
  C10, as amended: a test whose status is none of PASS, FAIL and WARNING and whose
  \<open>passed\<close> is neither True nor False increments \<open>total_tests\<close> only. For every run the
  three counters sum to at most \<open>total_tests\<close>, strictly less in a run with such a test.
  Compared with the same run without it, the run with the test has a
  \<open>pass_percentage\<close> that is never higher and is lower exactly when some test passed, and
  the same \<open>production_ready\<close>.
\<close>

theorem unclassified_test_effect:
  assumes "unclassified u"
  shows "count_test v u = (v\<lparr>total_tests := total_tests v + 1\<rparr>, u) \<and>
    passed_tests (tally (init_validator t0) calls) + failed_tests (tally (init_validator t0) calls) +
      warning_tests (tally (init_validator t0) calls) \<le> total_tests (tally (init_validator t0) calls) \<and>
    (let va = tally (init_validator t0) (pre @ [ts1 @ ts2] @ post);
         vb = tally (init_validator t0) (pre @ [ts1 @ u # ts2] @ post)
     in total_tests vb = total_tests va + 1 \<and>
        passed_tests vb = passed_tests va \<and>
        failed_tests vb = failed_tests va \<and>
        warning_tests vb = warning_tests va \<and>
        passed_tests vb + failed_tests vb + warning_tests vb < total_tests vb \<and>
        (\<exists>sa sb. add_summary va now = Inr sa \<and> add_summary vb now = Inr sb \<and>
           pass_percentage sb \<le> pass_percentage sa \<and>
           (pass_percentage sb < pass_percentage sa \<longleftrightarrow> 0 < tests_passed sa) \<and>
           production_ready sb = production_ready sa))"
proof -
  let ?va = "tally (init_validator t0) (pre @ [ts1 @ ts2] @ post)"
  let ?vb = "tally (init_validator t0) (pre @ [ts1 @ u # ts2] @ post)"
  note skip = unclassified_not_counted [OF assms]
  have total: "total_tests ?vb = total_tests ?va + 1"
    by (simp add: tally_init_counters)
  have passed: "passed_tests ?vb = passed_tests ?va"
    by (simp add: tally_init_counters skip)
  have failed: "failed_tests ?vb = failed_tests ?va"
    by (simp add: tally_init_counters skip)
  have warned: "warning_tests ?vb = warning_tests ?va"
    by (simp add: tally_init_counters skip)
  have le: "passed_tests ?va + failed_tests ?va + warning_tests ?va \<le> total_tests ?va"
    by (rule classified_le_total)
  have strict: "passed_tests ?vb + failed_tests ?vb + warning_tests ?vb < total_tests ?vb"
    unfolding total passed failed warned using le by linarith
  have p0: "0 \<le> passed_tests ?va"
    by (simp add: tally_init_counters)
  have pn: "passed_tests ?va \<le> total_tests ?va"
    using le by (simp add: tally_init_counters)
  have summaries: "\<exists>sa sb. add_summary ?va now = Inr sa \<and> add_summary ?vb now = Inr sb \<and>
           pass_percentage sb \<le> pass_percentage sa \<and>
           (pass_percentage sb < pass_percentage sa \<longleftrightarrow> 0 < tests_passed sa) \<and>
           production_ready sb = production_ready sa"
    unfolding add_summary_Inr total passed failed warned
    using percentage_diluted [OF p0 pn] by simp
  show ?thesis
    unfolding Let_def
    using unclassified_count_test [OF assms, of v] classified_le_total [of t0 calls]
      total passed failed warned strict summaries
    by blast
qed

lemma example_skipped_runs:
  "tally (init_validator 0) [[]] =
     \<lparr>start_time = 0, passed_tests = 0, failed_tests = 0, warning_tests = 0, total_tests = 0\<rparr>"
  "tally (init_validator 0) [[skipped_test]] =
     \<lparr>start_time = 0, passed_tests = 0, failed_tests = 0, warning_tests = 0, total_tests = 1\<rparr>"
  "tally (init_validator 0) [[pass_test, skipped_test, fail_test]] =
     \<lparr>start_time = 0, passed_tests = 1, failed_tests = 1, warning_tests = 0, total_tests = 3\<rparr>"
  by (simp_all add: init_validator_def count_test_def pass_test_def fail_test_def
      skipped_test_def Let_def)

lemma skipped_test_unclassified: "unclassified skipped_test"
  by (simp add: unclassified_def skipped_test_def)

theorem unclassified_test_effect_witness:
  "unclassified skipped_test \<and>
   (\<exists>sa sb. add_summary (tally (init_validator 0) [[pass_test, fail_test]]) 1 = Inr sa \<and>
      add_summary (tally (init_validator 0) [[pass_test, skipped_test, fail_test]]) 1 = Inr sb \<and>
      pass_percentage sa = 50 \<and> pass_percentage sb = 100 / 3 \<and>
      pass_percentage sb < pass_percentage sa \<and>
      production_ready sb = production_ready sa)"
proof -
  have l1: "[] @ [[pass_test] @ [fail_test]] @ [] = [[pass_test, fail_test]]"
    and l2: "[] @ [[pass_test] @ skipped_test # [fail_test]] @ [] =
               [[pass_test, skipped_test, fail_test]]"
    by simp_all
  from unclassified_test_effect [OF skipped_test_unclassified,
        of "init_validator 0" 0 "[]" "[]" "[pass_test]" "[fail_test]" "[]" 1]
  have "\<exists>sa sb. add_summary (tally (init_validator 0) [[pass_test, fail_test]]) 1 = Inr sa \<and>
      add_summary (tally (init_validator 0) [[pass_test, skipped_test, fail_test]]) 1 = Inr sb \<and>
      (pass_percentage sb < pass_percentage sa \<longleftrightarrow> 0 < tests_passed sa) \<and>
      production_ready sb = production_ready sa"
    unfolding Let_def l1 l2 by blast
  then show ?thesis
    unfolding example_counts example_skipped_runs
    by (auto simp add: add_summary_Inr skipped_test_unclassified)
qed

text \<open>
  The claim as stated fails where no test passed: the empty run has percentage 0, and so
  has the run of one unclassified test.
\<close>

theorem unclassified_test_not_lower_counterexample:
  "unclassified skipped_test \<and>
   map_sum id pass_percentage (add_summary (tally (init_validator 0) [[]]) 1) = Inr 0 \<and>
   map_sum id pass_percentage (add_summary (tally (init_validator 0) [[skipped_test]]) 1) = Inr 0 \<and>
   \<not> pass_percentage (projr (add_summary (tally (init_validator 0) [[skipped_test]]) 1))
       < pass_percentage (projr (add_summary (tally (init_validator 0) [[]]) 1))"
  unfolding example_skipped_runs
  by (simp add: add_summary_Inr skipped_test_unclassified)

section \<open>Properties of the load tester\<close>

lemma py_index_in_range:
  "0 \<le> i \<Longrightarrow> i < int (length xs) \<Longrightarrow> py_index xs i = Inr (xs ! nat i)"
  by (simp add: py_index_def Let_def)

lemma get_percentile_returns:
  assumes "0 \<le> p" "p \<le> 100"
  shows "\<exists>y. get_percentile xs p = Inr y"
proof (cases "xs = []")
  case True
  then show ?thesis by (simp add: get_percentile_def)
next
  case False
  let ?s = "sort xs"
  let ?n = "int (length ?s)"
  let ?idx = "real_of_int (?n - 1) * (p / 100)"
  let ?lower = "py_int_of_float ?idx"
  have n: "1 \<le> ?n" using False by (cases xs) auto
  have idx0: "0 \<le> ?idx" using n assms by simp
  have "?idx \<le> real_of_int (?n - 1) * 1"
    using n assms by (intro mult_left_mono) auto
  then have idx1: "?idx \<le> real_of_int (?n - 1)" by simp
  have lower: "?lower = \<lfloor>?idx\<rfloor>" using idx0 by (simp add: py_int_of_float_def)
  have l0: "0 \<le> ?lower" unfolding lower using idx0 by simp
  have "\<lfloor>?idx\<rfloor> \<le> \<lfloor>real_of_int (?n - 1)\<rfloor>" using idx1 by (rule floor_mono)
  then have l1: "?lower \<le> ?n - 1" unfolding lower by (simp only: floor_of_int)
  have l2: "?lower < ?n" using l1 by simp
  show ?thesis
  proof (cases "?n = 1")
    case True
    then show ?thesis using False
      by (simp add: get_percentile_def Let_def py_index_def)
  next
    case n1: False
    show ?thesis
    proof (cases "?lower + 1 \<ge> ?n")
      case True
      then show ?thesis
        using False n1 py_index_in_range [OF l0 l2]
        by (simp add: get_percentile_def Let_def)
    next
      case up: False
      then have u1: "?lower + 1 < ?n" by simp
      have u0: "0 \<le> ?lower + 1" using l0 by simp
      show ?thesis
        using False n1 up py_index_in_range [OF l0 l2] py_index_in_range [OF u0 u1]
        by (simp add: get_percentile_def Let_def)
    qed
  qed
qed

lemma compute_statistics_returns: "\<exists>s. compute_statistics ts = Inr s"
proof -
  obtain a where a: "get_percentile ts 95 = Inr a"
    using get_percentile_returns [of 95 ts] by auto
  obtain b where b: "get_percentile ts 99 = Inr b"
    using get_percentile_returns [of 99 ts] by auto
  show ?thesis by (simp add: compute_statistics_def a b)
qed

lemma attempt_counts:
  assumes "attempt url rep r = Inr r'"
  shows "requests r' = requests r + 1 \<and>
         ((successful r' = successful r + 1 \<and> failed r' = failed r) \<or>
          (successful r' = successful r \<and> failed r' = failed r + 1))"
  using assms
  by (auto simp add: attempt_def Let_def split: reply.splits py_exception.splits if_splits)

lemma attempt_balanced: "attempt url rep r = Inr r' \<Longrightarrow> balanced r \<Longrightarrow> balanced r'"
  using attempt_counts [of url rep r r'] by (auto simp add: balanced_def)

lemma run_endpoints_balanced:
  "run_endpoints base net eps (checks, k, r) = Inr (checks', k', r') \<Longrightarrow> balanced r \<Longrightarrow> balanced r'"
proof (induction eps arbitrary: checks k r)
  case Nil
  then show ?case by simp
next
  case (Cons e eps)
  from Cons.prems(1) obtain r1 where a: "attempt (base @ e) (net k) r = Inr r1"
    by (auto split: sum.splits)
  have b1: "balanced r1" using attempt_balanced [OF a Cons.prems(2)] .
  show ?case
  proof (cases checks)
    case Nil
    with Cons.prems(1) a b1 show ?thesis by simp
  next
    case (Cons c cs)
    show ?thesis
    proof (cases c)
      case True
      with Cons.prems(1) a Cons have "run_endpoints base net eps (cs, Suc k, r1) = Inr (checks', k', r')"
        by simp
      from Cons.IH [OF this b1] show ?thesis .
    next
      case False
      with Cons.prems(1) a Cons b1 show ?thesis by simp
    qed
  qed
qed

lemma run_while_balanced:
  "run_while base net eps st = Inr r' \<Longrightarrow> balanced (snd (snd st)) \<Longrightarrow> balanced r'"
proof (induction base net eps st rule: run_while.induct)
  case (1 base net eps k r)
  then show ?case by simp
next
  case (2 base net eps c cs k r)
  show ?case
  proof (cases c)
    case False
    with "2.prems" show ?thesis by simp
  next
    case True
    with "2.prems"(1) obtain st where st: "run_endpoints base net eps (cs, k, r) = Inr st"
      and rw: "run_while base net eps st = Inr r'"
      by (auto split: sum.splits)
    obtain checks' k' r1 where [simp]: "st = (checks', k', r1)" by (cases st) auto
    have "balanced r1" using run_endpoints_balanced [of base net eps cs k r checks' k' r1] st "2.prems"(2)
      by simp
    with "2.IH" [OF True st] rw show ?thesis by simp
  qed
qed

lemma worker_run_balanced:
  assumes "worker_run base_url eps w = Inr r"
  shows "balanced r"
proof -
  from assms obtain r0 s where r0: "run_while (rstrip CHR ''/'' base_url) (replies w) eps
             (deadline_checks w, 0, init_results) = Inr r0" and r: "r = r0\<lparr>stats := s\<rparr>"
    by (auto simp add: worker_run_def split: sum.splits)
  have "balanced init_results" by (simp add: balanced_def init_results_def)
  with run_while_balanced [OF r0] have "balanced r0" by simp
  then show ?thesis by (simp add: r balanced_def)
qed

lemma collect_results_set:
  "r \<in> set (collect_results xs) \<longleftrightarrow> Inr r \<in> set xs"
  by (induction xs rule: collect_results.induct) auto

lemma all_results_balanced:
  "r \<in> set (all_results base_url eps num_users world) \<Longrightarrow> balanced r"
  by (auto simp add: all_results_def collect_results_set dest: worker_run_balanced [OF sym])

lemma combine_results_counts:
  "requests (combine_results acc rs) = requests acc + sum_list (map requests rs)"
  "successful (combine_results acc rs) = successful acc + sum_list (map successful rs)"
  "failed (combine_results acc rs) = failed acc + sum_list (map failed rs)"
  "response_times (combine_results acc rs) = response_times acc @ concat (map response_times rs)"
  "errors (combine_results acc rs) = errors acc @ concat (map errors rs)"
  by (induction rs arbitrary: acc) simp_all

lemma balanced_sum:
  "\<forall>r \<in> set rs. balanced r \<Longrightarrow>
     sum_list (map successful rs) + sum_list (map failed rs) = sum_list (map requests rs)"
  by (induction rs) (auto simp add: balanced_def)

text \<open>
  C9: the percentile helper gives 25 on \<open>[10, 20, 30, 40]\<close> at the 50th percentile, by
  interpolation between 20 and 30, and 5 on \<open>[5]\<close> at the 99th. Both computations are
  exact in binary floating point, so the reals give the value Python gives.
\<close>

theorem get_percentile_examples:
  "get_percentile [10, 20, 30, 40] 50 = Inr 25 \<and> get_percentile [5] 99 = Inr 5"
  by (simp add: get_percentile_def py_index_def py_int_of_float_def Let_def)

lemma load_test_body_metrics:
  assumes "load_test_body rt base_url num_users duration max_allowed endpoints world = Inr res"
  shows "\<exists>m. lt_metrics res = Some m \<and>
           requests m = sum_list (map requests
             (all_results base_url (test_endpoints_of endpoints world base_url) num_users world)) \<and>
           successful m = sum_list (map successful
             (all_results base_url (test_endpoints_of endpoints world base_url) num_users world)) \<and>
           failed m = sum_list (map failed
             (all_results base_url (test_endpoints_of endpoints world base_url) num_users world))"
  using assms
  by (auto simp add: load_test_body_def Let_def combine_results_counts init_results_def
        worker_results.defs load_metrics.defs
      split: if_splits sum.splits)

lemma run_load_test_metrics:
  assumes "lt_metrics (run_load_test rt base_url num_users duration max_allowed endpoints world) = Some m"
  shows "load_test_body rt base_url num_users duration max_allowed endpoints world =
           Inr (run_load_test rt base_url num_users duration max_allowed endpoints world)"
  using assms
  by (auto simp add: run_load_test_def Let_def split: reply.splits py_exception.splits sum.splits)

lemma load_test_body_returns:
  assumes "0 < num_users" "duration \<noteq> 0"
  shows "\<exists>res. load_test_body rt base_url num_users duration max_allowed endpoints world = Inr res"
proof -
  let ?c = "combine_results init_results
              (all_results base_url (test_endpoints_of endpoints world base_url) num_users world)"
  obtain st where st: "compute_statistics (response_times ?c) = Inr st"
    using compute_statistics_returns by blast
  show ?thesis
    using assms by (simp add: load_test_body_def Let_def st py_truediv_def)
qed

text \<open>
  C4: whenever a load test produces merged metrics, their \<open>requests\<close> is the sum of the
  request counts of the workers' results and \<open>successful + failed = requests\<close>. It
  produces them when the base URL answers, \<open>num_users\<close> is positive and \<open>duration\<close> is
  not 0. Every worker's result balances in the same way, because each attempt adds one
  to \<open>requests\<close> and one to exactly one of \<open>successful\<close> and \<open>failed\<close>, also when the
  request raises a \<^verbatim>\<open>RequestException\<close>.
\<close>

theorem merged_metrics_counts:
  "(\<forall>m. lt_metrics (run_load_test rt base_url num_users duration max_allowed endpoints world) = Some m \<longrightarrow>
      requests m = sum_list (map requests
        (all_results base_url (test_endpoints_of endpoints world base_url) num_users world)) \<and>
      successful m + failed m = requests m) \<and>
   ((\<exists>resp t. base_reply world = Replied resp t) \<and> 0 < num_users \<and> duration \<noteq> 0 \<longrightarrow>
      (\<exists>m. lt_metrics (run_load_test rt base_url num_users duration max_allowed endpoints world) = Some m)) \<and>
   (\<forall>r \<in> set (all_results base_url (test_endpoints_of endpoints world base_url) num_users world).
      successful r + failed r = requests r) \<and>
   (\<forall>url rep r r'. attempt url rep r = Inr r' \<longrightarrow>
      requests r' = requests r + 1 \<and>
      ((successful r' = successful r + 1 \<and> failed r' = failed r) \<or>
       (successful r' = successful r \<and> failed r' = failed r + 1)))"
proof -
  let ?res = "run_load_test rt base_url num_users duration max_allowed endpoints world"
  let ?all = "all_results base_url (test_endpoints_of endpoints world base_url) num_users world"
  have bal: "\<forall>r \<in> set ?all. balanced r"
    using all_results_balanced by blast
  have merged: "requests m = sum_list (map requests ?all) \<and> successful m + failed m = requests m"
    if "lt_metrics ?res = Some m" for m
  proof -
    from load_test_body_metrics [OF run_load_test_metrics [OF that]] that
    have "requests m = sum_list (map requests ?all)"
      and "successful m = sum_list (map successful ?all)"
      and "failed m = sum_list (map failed ?all)"
      by auto
    with balanced_sum [OF bal] show ?thesis by simp
  qed
  have returns: "\<exists>m. lt_metrics ?res = Some m"
    if ok: "\<exists>resp t. base_reply world = Replied resp t" and users: "0 < num_users"
      and dur: "duration \<noteq> 0"
  proof -
    obtain res where res: "load_test_body rt base_url num_users duration max_allowed endpoints world = Inr res"
      using load_test_body_returns [OF users dur] by blast
    from load_test_body_metrics [OF res] obtain m where "lt_metrics res = Some m" by blast
    with res ok show ?thesis
      by (auto simp add: run_load_test_def Let_def)
  qed
  from merged returns bal attempt_counts show ?thesis
    unfolding balanced_def by blast
qed

lemma sample_worker_run:
  "worker_run ''http://h/'' [''/a''] sample_worker =
     Inr \<lparr>requests = 2, successful = 1, failed = 1, response_times = [12],
          errors = [RequestError ''http://h/a'' ''timed out''],
          stats = Some \<lparr>min_response_time = 12, max_response_time = 12, avg_response_time = 12,
                        std_dev = 0, median_response_time = 12, p95_response_time = 12,
                        p99_response_time = 12\<rparr>\<rparr>"
  by (simp add: worker_run_def sample_worker_def rstrip_def init_results_def attempt_def
        ok_response_def compute_statistics_def get_percentile_def py_index_def mean_def
        median_def Let_def)

lemma sample_all_results:
  "map requests (all_results ''http://h/'' (test_endpoints_of [''/a''] sample_load_world ''http://h/'')
       2 sample_load_world) = [2, 2]"
proof -
  have "[0..<nat 2] = [0, 1]" by (simp add: upt_rec)
  then show ?thesis
    by (simp add: all_results_def test_endpoints_of_def sample_load_world_def sample_worker_run)
qed

theorem merged_metrics_counts_witness:
  "\<exists>m. lt_metrics (run_load_test plain_runtime ''http://h/'' 2 10 500 [''/a''] sample_load_world) = Some m \<and>
       requests m = 4 \<and> successful m + failed m = 4"
proof -
  note inst = merged_metrics_counts [of plain_runtime "''http://h/''" 2 10 500 "[''/a'']" sample_load_world]
  have "\<exists>resp t. base_reply sample_load_world = Replied resp t"
    by (simp add: sample_load_world_def)
  with inst obtain m where
    m: "lt_metrics (run_load_test plain_runtime ''http://h/'' 2 10 500 [''/a''] sample_load_world) = Some m"
    by auto
  with inst have "requests m = sum_list (map requests
        (all_results ''http://h/'' (test_endpoints_of [''/a''] sample_load_world ''http://h/'') 2 sample_load_world))"
    and "successful m + failed m = requests m"
    by blast+
  with m show ?thesis
    by (simp add: sample_all_results)
qed

section \<open>Properties of the schema validator\<close>

lemma matches_dict:
  "matches (PDict kvs) (SDict entries) = list_all (has_matching kvs) entries"
proof -
  have "(\<lambda>(key, vs). case map_of kvs key of None \<Rightarrow> False | Some v \<Rightarrow> matches v vs) =
          has_matching kvs"
    by (auto simp add: fun_eq_iff has_matching_def split: option.splits)
  then show ?thesis by simp
qed

lemma type_of_list: "type_of d = TList \<longleftrightarrow> (\<exists>items. d = PList items)"
  by (cases d) (simp_all add: type_of_def)

lemma type_of_dict: "type_of d = TDict \<longleftrightarrow> (\<exists>kvs. d = PDict kvs)"
  by (cases d) (simp_all add: type_of_def)

lemma render_path_Cons: "render_path (st # p) = render_step st @ render_path p"
  by (simp add: render_path_def)

lemma render_path_Nil: "render_path [] = []"
  by (simp add: render_path_def)

lemma items_verdict_Nil: "items_verdict [] i s"
  by (simp add: items_verdict_def)

lemma items_verdict_Cons:
  assumes head: "schema_verdict item s"
    and tail: "matches item s \<Longrightarrow> items_verdict rest (Suc i) s"
  shows "items_verdict (item # rest) i s"
proof (cases "matches item s")
  case False
  with head obtain p r where ff: "first_failure item s p r"
    and v: "validate_schema item s = (False, render_path p @ render_reason r)"
    by (auto simp add: schema_verdict_def)
  have "validate_items (item # rest) i s =
          (False, render_step (Item (i + 0)) @ render_path p @ render_reason r)"
    by (simp add: v render_step_def)
  with ff have "\<exists>k p r. k < length (item # rest) \<and> (\<forall>j<k. matches ((item # rest) ! j) s) \<and>
             first_failure ((item # rest) ! k) s p r \<and>
             validate_items (item # rest) i s =
               (False, render_step (Item (i + k)) @ render_path p @ render_reason r)"
    by (intro exI [of _ 0] exI [of _ p] exI [of _ r]) simp
  with False show ?thesis
    unfolding items_verdict_def by simp
next
  case True
  with head have v: "validate_schema item s = (True, [])"
    by (simp add: schema_verdict_def)
  note t = tail [OF True]
  show ?thesis
  proof (cases "list_all (\<lambda>x. matches x s) rest")
    case all: True
    with t True v show ?thesis by (simp add: items_verdict_def)
  next
    case some: False
    with t obtain k p r where k: "k < length rest" and before: "\<forall>j<k. matches (rest ! j) s"
      and ff: "first_failure (rest ! k) s p r"
      and res: "validate_items rest (Suc i) s =
                 (False, render_step (Item (Suc i + k)) @ render_path p @ render_reason r)"
      by (auto simp add: items_verdict_def)
    have b: "\<forall>j<Suc k. matches ((item # rest) ! j) s"
      using before True by (auto simp add: nth_Cons split: nat.splits)
    have "validate_items (item # rest) i s =
            (False, render_step (Item (i + Suc k)) @ render_path p @ render_reason r)"
      using res by (simp add: v)
    with k b ff have "\<exists>k p r. k < length (item # rest) \<and> (\<forall>j<k. matches ((item # rest) ! j) s) \<and>
             first_failure ((item # rest) ! k) s p r \<and>
             validate_items (item # rest) i s =
               (False, render_step (Item (i + k)) @ render_path p @ render_reason r)"
      by (intro exI [of _ "Suc k"] exI [of _ p] exI [of _ r]) simp
    with some show ?thesis
      unfolding items_verdict_def by simp
  qed
qed


lemma keys_verdict_Nil: "keys_verdict kvs []"
  by (simp add: keys_verdict_def)

lemma keys_verdict_Cons:
  assumes val: "\<And>v. map_of kvs key = Some v \<Longrightarrow> schema_verdict v vs"
    and tail: "has_matching kvs (key, vs) \<Longrightarrow> keys_verdict kvs rest"
  shows "keys_verdict kvs ((key, vs) # rest)"
proof (cases "map_of kvs key")
  case None
  then have no: "\<not> has_matching kvs (key, vs)"
    by (simp add: has_matching_def)
  have "validate_keys kvs ((key, vs) # rest) = (False, render_reason (Missing key))"
    using None by (simp add: render_reason_def)
  with None have "\<exists>before k s after. (key, vs) # rest = before @ (k, s) # after \<and>
             (\<forall>e \<in> set before. has_matching kvs e) \<and>
             ((map_of kvs k = None \<and>
               validate_keys kvs ((key, vs) # rest) = (False, render_reason (Missing k))) \<or>
              (\<exists>v p r. map_of kvs k = Some v \<and> first_failure v s p r \<and>
                 validate_keys kvs ((key, vs) # rest) =
                   (False, render_step (Key k) @ render_path p @ render_reason r)))"
    by (intro exI [of _ "[]"] exI [of _ key] exI [of _ vs] exI [of _ rest]) simp
  with no show ?thesis
    unfolding keys_verdict_def by simp
next
  case (Some v)
  note sv = val [OF Some]
  show ?thesis
  proof (cases "matches v vs")
    case False
    then have no: "\<not> has_matching kvs (key, vs)"
      using Some by (simp add: has_matching_def)
    from sv False obtain p r where ff: "first_failure v vs p r"
      and res: "validate_schema v vs = (False, render_path p @ render_reason r)"
      by (auto simp add: schema_verdict_def)
    have "validate_keys kvs ((key, vs) # rest) =
            (False, render_step (Key key) @ render_path p @ render_reason r)"
      using Some res by (simp add: render_step_def)
    with Some ff have "\<exists>before k s after. (key, vs) # rest = before @ (k, s) # after \<and>
             (\<forall>e \<in> set before. has_matching kvs e) \<and>
             ((map_of kvs k = None \<and>
               validate_keys kvs ((key, vs) # rest) = (False, render_reason (Missing k))) \<or>
              (\<exists>v p r. map_of kvs k = Some v \<and> first_failure v s p r \<and>
                 validate_keys kvs ((key, vs) # rest) =
                   (False, render_step (Key k) @ render_path p @ render_reason r)))"
      by (intro exI [of _ "[]"] exI [of _ key] exI [of _ vs] exI [of _ rest]) auto
    with no show ?thesis
      unfolding keys_verdict_def by simp
  next
    case True
    then have yes: "has_matching kvs (key, vs)"
      using Some by (simp add: has_matching_def)
    from sv True have res: "validate_schema v vs = (True, [])"
      by (simp add: schema_verdict_def)
    have step: "validate_keys kvs ((key, vs) # rest) = validate_keys kvs rest"
      using Some res by simp
    note t = tail [OF yes]
    show ?thesis
    proof (cases "list_all (has_matching kvs) rest")
      case all: True
      with t yes step show ?thesis by (simp add: keys_verdict_def)
    next
      case some: False
      from t have "\<exists>before k s after. rest = before @ (k, s) # after \<and>
             (\<forall>e \<in> set before. has_matching kvs e) \<and>
             ((map_of kvs k = None \<and>
               validate_keys kvs rest = (False, render_reason (Missing k))) \<or>
              (\<exists>v p r. map_of kvs k = Some v \<and> first_failure v s p r \<and>
                 validate_keys kvs rest =
                   (False, render_step (Key k) @ render_path p @ render_reason r)))"
        unfolding keys_verdict_def by (simp only: some if_False)
      then obtain before k s after where split: "rest = before @ (k, s) # after"
        and ok: "\<forall>e \<in> set before. has_matching kvs e"
        and fail: "(map_of kvs k = None \<and>
               validate_keys kvs rest = (False, render_reason (Missing k))) \<or>
              (\<exists>v p r. map_of kvs k = Some v \<and> first_failure v s p r \<and>
                 validate_keys kvs rest =
                   (False, render_step (Key k) @ render_path p @ render_reason r))"
        by blast
      from split ok yes fail
      have "\<exists>before k s after. (key, vs) # rest = before @ (k, s) # after \<and>
             (\<forall>e \<in> set before. has_matching kvs e) \<and>
             ((map_of kvs k = None \<and>
               validate_keys kvs ((key, vs) # rest) = (False, render_reason (Missing k))) \<or>
              (\<exists>v p r. map_of kvs k = Some v \<and> first_failure v s p r \<and>
                 validate_keys kvs ((key, vs) # rest) =
                   (False, render_step (Key k) @ render_path p @ render_reason r)))"
        unfolding step
        by (intro exI [of _ "(key, vs) # before"] exI [of _ k] exI [of _ s] exI [of _ after]) simp
      with some show ?thesis
        unfolding keys_verdict_def by simp
    qed
  qed
qed

lemma schema_verdict_type: "schema_verdict d (SType t)"
proof (cases "isinstance d t")
  case True
  then show ?thesis by (simp add: schema_verdict_def)
next
  case False
  have "validate_schema d (SType t) =
          (False, render_path [] @ render_reason (Mismatch (type_name t) (type_name (type_of d))))"
    using False by (simp add: render_path_Nil render_reason_def)
  with first_failure.wrong_class [OF False] False show ?thesis
    unfolding schema_verdict_def by auto
qed

lemma schema_verdict_list:
  assumes "\<And>items s rest. d = PList items \<Longrightarrow> ss = s # rest \<Longrightarrow> items_verdict items 0 s"
  shows "schema_verdict d (SList ss)"
proof (cases "type_of d = TList")
  case False
  then have nm: "\<not> matches d (SList ss)"
    by (cases ss; cases d) (simp_all add: type_of_def)
  have "validate_schema d (SList ss) =
          (False, render_path [] @ render_reason (Mismatch ''list'' (type_name (type_of d))))"
    using False by (cases d) (simp_all add: render_path_Nil render_reason_def type_of_def)
  with first_failure.not_a_list [OF False] nm show ?thesis
    unfolding schema_verdict_def by auto
next
  case True
  then obtain items where d: "d = PList items" by (auto simp add: type_of_list)
  show ?thesis
  proof (cases ss)
    case Nil
    then show ?thesis by (simp add: schema_verdict_def d type_of_def)
  next
    case (Cons s rest)
    note iv = assms [OF d Cons]
    show ?thesis
    proof (cases "list_all (\<lambda>x. matches x s) items")
      case all: True
      with iv show ?thesis by (simp add: schema_verdict_def items_verdict_def d Cons)
    next
      case some: False
      with iv obtain k p r where k: "k < length items" and before: "\<forall>j<k. matches (items ! j) s"
        and ff: "first_failure (items ! k) s p r"
        and res: "validate_items items 0 s =
                   (False, render_step (Item (0 + k)) @ render_path p @ render_reason r)"
        by (auto simp add: items_verdict_def)
      have "validate_schema d (SList ss) = (False, render_path (Item k # p) @ render_reason r)"
        using res by (simp add: d Cons render_path_Cons)
      with first_failure.element [OF k before ff, of rest] some show ?thesis
        unfolding schema_verdict_def by (auto simp add: d Cons)
    qed
  qed
qed

lemma schema_verdict_dict:
  assumes "\<And>kvs. d = PDict kvs \<Longrightarrow> keys_verdict kvs entries"
  shows "schema_verdict d (SDict entries)"
proof (cases "type_of d = TDict")
  case False
  then have nm: "\<not> matches d (SDict entries)"
    by (cases d) (simp_all add: type_of_def)
  have "validate_schema d (SDict entries) =
          (False, render_path [] @ render_reason (Mismatch ''dict'' (type_name (type_of d))))"
    using False by (cases d) (simp_all add: render_path_Nil render_reason_def type_of_def)
  with first_failure.not_a_dict [OF False] nm show ?thesis
    unfolding schema_verdict_def by auto
next
  case True
  then obtain kvs where d: "d = PDict kvs" by (auto simp add: type_of_dict)
  note kv = assms [OF d]
  show ?thesis
  proof (cases "list_all (has_matching kvs) entries")
    case all: True
    with kv show ?thesis
      by (simp add: schema_verdict_def keys_verdict_def d matches_dict del: matches.simps)
  next
    case some: False
    then have nm: "\<not> matches d (SDict entries)"
      by (simp add: d matches_dict del: matches.simps)
    from kv have "\<exists>before key vs after. entries = before @ (key, vs) # after \<and>
             (\<forall>e \<in> set before. has_matching kvs e) \<and>
             ((map_of kvs key = None \<and>
               validate_keys kvs entries = (False, render_reason (Missing key))) \<or>
              (\<exists>v p r. map_of kvs key = Some v \<and> first_failure v vs p r \<and>
                 validate_keys kvs entries =
                   (False, render_step (Key key) @ render_path p @ render_reason r)))"
      unfolding keys_verdict_def by (simp only: some if_False)
    then obtain before key vs after where split: "entries = before @ (key, vs) # after"
      and ok: "\<forall>e \<in> set before. has_matching kvs e"
      and fail: "(map_of kvs key = None \<and>
               validate_keys kvs entries = (False, render_reason (Missing key))) \<or>
              (\<exists>v p r. map_of kvs key = Some v \<and> first_failure v vs p r \<and>
                 validate_keys kvs entries =
                   (False, render_step (Key key) @ render_path p @ render_reason r))"
      by blast
    from fail show ?thesis
    proof
      assume a: "map_of kvs key = None \<and>
               validate_keys kvs entries = (False, render_reason (Missing key))"
      then have "validate_schema d (SDict entries) =
                   (False, render_path [] @ render_reason (Missing key))"
        by (simp add: d render_path_Nil)
      with first_failure.missing_key [OF split ok] a nm show ?thesis
        unfolding schema_verdict_def d by auto
    next
      assume "\<exists>v p r. map_of kvs key = Some v \<and> first_failure v vs p r \<and>
                 validate_keys kvs entries =
                   (False, render_step (Key key) @ render_path p @ render_reason r)"
      then obtain v p r where v: "map_of kvs key = Some v" and ff: "first_failure v vs p r"
        and res: "validate_keys kvs entries =
                   (False, render_step (Key key) @ render_path p @ render_reason r)"
        by blast
      have "validate_schema d (SDict entries) =
              (False, render_path (Key key # p) @ render_reason r)"
        using res by (simp add: d render_path_Cons)
      with first_failure.key_value [OF split ok v ff] nm show ?thesis
        unfolding schema_verdict_def d by auto
    qed
  qed
qed

lemma verdicts:
  "schema_verdict d s" and "items_verdict items i s" and "keys_verdict kvs entries"
proof (induction d s and items i s and kvs entries
    rule: validate_schema_validate_items_validate_keys.induct)
  case (1 d t)
  show ?case by (rule schema_verdict_type)
next
  case (2 d ss)
  show ?case by (rule schema_verdict_list) (rule 2)
next
  case (3 d entries)
  show ?case by (rule schema_verdict_dict) (rule 3)
next
  case (4 d b)
  show ?case by (simp add: schema_verdict_def)
next
  case (5 i s)
  show ?case by (rule items_verdict_Nil)
next
  case (6 item rest i s)
  show ?case
  proof (rule items_verdict_Cons)
    show "schema_verdict item s" by (rule 6)
  next
    assume "matches item s"
    with "6.IH"(1) have "validate_schema item s = (True, [])"
      by (simp add: schema_verdict_def)
    then show "items_verdict rest (Suc i) s"
      by (intro "6.IH"(2) [of True "[]"]) simp_all
  qed
next
  case (7 kvs)
  show ?case by (rule keys_verdict_Nil)
next
  case (8 kvs key vs rest)
  show ?case
  proof (rule keys_verdict_Cons)
    fix v assume "map_of kvs key = Some v"
    then show "schema_verdict v vs" by (rule "8.IH"(1))
  next
    assume "has_matching kvs (key, vs)"
    then obtain v where v: "map_of kvs key = Some v" and m: "matches v vs"
      by (auto simp add: has_matching_def split: option.splits)
    from "8.IH"(1) [OF v] m have "validate_schema v vs = (True, [])"
      by (simp add: schema_verdict_def)
    then show "keys_verdict kvs rest"
      by (intro "8.IH"(2) [OF v, of True "[]"]) simp_all
  qed
qed

lemma render_reason_nonempty: "render_reason r \<noteq> []"
  by (cases r) (simp_all add: render_reason_def)

lemma first_failure_not_matches: "first_failure d s p r \<Longrightarrow> \<not> matches d s"
proof (induction rule: first_failure.induct)
  case (wrong_class d t)
  then show ?case by simp
next
  case (not_a_list d ss)
  then show ?case by (cases ss; cases d) (simp_all add: type_of_def)
next
  case (element i items s p r rest)
  then have "items ! i \<in> set items" and "\<not> matches (items ! i) s" by simp_all
  then show ?case by (auto simp add: list_all_iff)
next
  case (not_a_dict d entries)
  then show ?case by (cases d) (simp_all add: type_of_def)
next
  case (missing_key entries before key vs after kvs)
  then have "(key, vs) \<in> set entries" and "\<not> has_matching kvs (key, vs)"
    by (simp_all add: has_matching_def)
  then show ?case
    by (auto simp add: matches_dict list_all_iff simp del: matches.simps)
next
  case (key_value entries before key vs after kvs v p r)
  then have "(key, vs) \<in> set entries" and "\<not> has_matching kvs (key, vs)"
    by (simp_all add: has_matching_def)
  then show ?case
    by (auto simp add: matches_dict list_all_iff simp del: matches.simps)
qed

lemma first_split_unique:
  assumes "before @ x # after = before' @ x' # after'"
    and "\<not> P x" and "\<not> P x'"
    and "\<forall>e \<in> set before. P e" and "\<forall>e \<in> set before'. P e"
  shows "before = before' \<and> x = x' \<and> after = after'"
  using assms
proof (induction before arbitrary: before')
  case Nil
  then show ?case by (cases before') auto
next
  case (Cons a before)
  then show ?case by (cases before') auto
qed

inductive_cases first_failure_SType: "first_failure d (SType t) p r"
inductive_cases first_failure_SList: "first_failure d (SList ss) p r"
inductive_cases first_failure_SDict: "first_failure d (SDict entries) p r"

lemma first_failure_unique:
  "first_failure d s p r \<Longrightarrow> first_failure d s p' r' \<Longrightarrow> p = p' \<and> r = r'"
proof (induction arbitrary: p' r' rule: first_failure.induct)
  case (wrong_class d t)
  from wrong_class.prems show ?case
    by (rule first_failure_SType) simp
next
  case (not_a_list d ss)
  from not_a_list.prems not_a_list.hyps show ?case
    by (auto elim!: first_failure_SList simp add: type_of_def)
next
  case (element i items s p r rest)
  from element.prems obtain i' p'' where p': "p' = Item i' # p''"
    and i': "i' < length items" and before': "\<forall>j<i'. matches (items ! j) s"
    and ff': "first_failure (items ! i') s p'' r'"
    by (rule first_failure_SList) (auto simp add: type_of_def)
  have "i = i'"
  proof (rule ccontr)
    assume "i \<noteq> i'"
    then consider "i < i'" | "i' < i" by linarith
    then show False
    proof cases
      case 1
      with before' have "matches (items ! i) s" by simp
      with first_failure_not_matches [OF element.hyps(3)] show False by simp
    next
      case 2
      with element.hyps(2) have "matches (items ! i') s" by simp
      with first_failure_not_matches [OF ff'] show False by simp
    qed
  qed
  with element.IH [of p'' r'] ff' p' show ?case by simp
next
  case (not_a_dict d entries)
  from not_a_dict.prems not_a_dict.hyps show ?case
    by (auto elim!: first_failure_SDict simp add: type_of_def)
next
  case (missing_key entries before key vs after kvs)
  have no: "\<not> has_matching kvs (key, vs)"
    using missing_key.hyps(3) by (simp add: has_matching_def)
  from missing_key.prems consider
    (missing) before' key' vs' after' where "entries = before' @ (key', vs') # after'"
      "p' = []" "r' = Missing key'" "\<forall>e\<in>set before'. has_matching kvs e" "map_of kvs key' = None"
  | (wrong) before' key' vs' after' v' p'' where "entries = before' @ (key', vs') # after'"
      "p' = Key key' # p''" "\<forall>e\<in>set before'. has_matching kvs e" "map_of kvs key' = Some v'"
      "first_failure v' vs' p'' r'"
    by (rule first_failure_SDict) (auto simp add: type_of_def)
  then show ?case
  proof cases
    case missing
    have no': "\<not> has_matching kvs (key', vs')"
      using missing(5) by (simp add: has_matching_def)
    have eq: "before @ (key, vs) # after = before' @ (key', vs') # after'"
      using missing_key.hyps(1) missing(1) by simp
    from first_split_unique [where P = "has_matching kvs", OF eq no no' missing_key.hyps(2) missing(4)]
    have "key = key'" by simp
    with missing show ?thesis by simp
  next
    case wrong
    have no': "\<not> has_matching kvs (key', vs')"
      using wrong(4) first_failure_not_matches [OF wrong(5)] by (simp add: has_matching_def)
    have eq: "before @ (key, vs) # after = before' @ (key', vs') # after'"
      using missing_key.hyps(1) wrong(1) by simp
    from first_split_unique [where P = "has_matching kvs", OF eq no no' missing_key.hyps(2) wrong(3)]
    have "key = key'" by simp
    with missing_key.hyps(3) wrong(4) show ?thesis by simp
  qed
next
  case (key_value entries before key vs after kvs v p r)
  have no: "\<not> has_matching kvs (key, vs)"
    using key_value.hyps(3) first_failure_not_matches [OF key_value.hyps(4)]
    by (simp add: has_matching_def)
  from key_value.prems consider
    (missing) before' key' vs' after' where "entries = before' @ (key', vs') # after'"
      "p' = []" "r' = Missing key'" "\<forall>e\<in>set before'. has_matching kvs e" "map_of kvs key' = None"
  | (wrong) before' key' vs' after' v' p'' where "entries = before' @ (key', vs') # after'"
      "p' = Key key' # p''" "\<forall>e\<in>set before'. has_matching kvs e" "map_of kvs key' = Some v'"
      "first_failure v' vs' p'' r'"
    by (rule first_failure_SDict) (auto simp add: type_of_def)
  then show ?case
  proof cases
    case missing
    have no': "\<not> has_matching kvs (key', vs')"
      using missing(5) by (simp add: has_matching_def)
    have eq: "before @ (key, vs) # after = before' @ (key', vs') # after'"
      using key_value.hyps(1) missing(1) by simp
    from first_split_unique [where P = "has_matching kvs", OF eq no no' key_value.hyps(2) missing(4)]
    have "key = key'" by simp
    with key_value.hyps(3) missing(5) show ?thesis by simp
  next
    case wrong
    have no': "\<not> has_matching kvs (key', vs')"
      using wrong(4) first_failure_not_matches [OF wrong(5)] by (simp add: has_matching_def)
    have eq: "before @ (key, vs) # after = before' @ (key', vs') # after'"
      using key_value.hyps(1) wrong(1) by simp
    from first_split_unique [where P = "has_matching kvs", OF eq no no' key_value.hyps(2) wrong(3)]
    have k: "key = key'" and "vs = vs'" by simp_all
    with key_value.hyps(3) wrong(4,5) have "first_failure v vs p'' r'" by simp
    with key_value.IH [of p'' r'] k wrong(2) show ?thesis by simp
  qed
qed

text \<open>
  C2: \<open>validate_schema\<close> returns \<open>(True, "")\<close> exactly when the value matches the schema.
  When it does not, there is one first failing location, and the result is \<open>False\<close> with
  the non-empty message that spells the path to it, one \<open>'key' -> \<close> or \<open>item[i] -> \<close>
  for each step, followed by the reason: the expected and the actual class, or the
  missing key.
\<close>

theorem validate_schema_matches:
  "(validate_schema d s = (True, []) \<longleftrightarrow> matches d s) \<and>
   (\<not> matches d s \<longrightarrow>
      (\<exists>p r. first_failure d s p r \<and>
         (\<forall>p' r'. first_failure d s p' r' \<longrightarrow> p' = p \<and> r' = r) \<and>
         validate_schema d s = (False, render_path p @ render_reason r) \<and>
         render_path p @ render_reason r \<noteq> []))"
proof (cases "matches d s")
  case True
  with verdicts(1) [of d s] show ?thesis
    by (simp add: schema_verdict_def)
next
  case False
  with verdicts(1) [of d s] obtain p r where ff: "first_failure d s p r"
    and res: "validate_schema d s = (False, render_path p @ render_reason r)"
    by (auto simp add: schema_verdict_def)
  have only: "\<forall>p' r'. first_failure d s p' r' \<longrightarrow> p' = p \<and> r' = r"
    using first_failure_unique [OF _ ff] by blast
  have nonempty: "render_path p @ render_reason r \<noteq> []"
    using render_reason_nonempty [of r] by simp
  have "validate_schema d s \<noteq> (True, [])"
    using res by simp
  with False ff only res nonempty show ?thesis
    by blast
qed

lemma sample_body_fails: "\<not> matches sample_body sample_schema"
  by (simp add: sample_body_def sample_schema_def isinstance_def type_of_def)

lemma sample_body_message:
  "validate_schema sample_body sample_schema =
     (False, [CHR 0x27] @ ''users'' @ [CHR 0x27] @ '' -> item[1] -> '' @
             [CHR 0x27] @ ''id'' @ [CHR 0x27] @ '' -> Expected int, got str'')"
  by (simp add: sample_body_def sample_schema_def isinstance_def type_of_def type_name_def
      str_nat.simps digit_char_def)

theorem validate_schema_matches_witness:
  "\<not> matches sample_body sample_schema \<and>
   (\<exists>p r. first_failure sample_body sample_schema p r \<and>
      render_path p @ render_reason r =
        [CHR 0x27] @ ''users'' @ [CHR 0x27] @ '' -> item[1] -> '' @
        [CHR 0x27] @ ''id'' @ [CHR 0x27] @ '' -> Expected int, got str'')"
proof -
  from validate_schema_matches [of sample_body sample_schema] sample_body_fails
  obtain p r where ff: "first_failure sample_body sample_schema p r"
    and v: "validate_schema sample_body sample_schema = (False, render_path p @ render_reason r)"
    by blast
  from v have "(False, render_path p @ render_reason r) =
      (False, [CHR 0x27] @ ''users'' @ [CHR 0x27] @ '' -> item[1] -> '' @
              [CHR 0x27] @ ''id'' @ [CHR 0x27] @ '' -> Expected int, got str'')"
    by (simp only: sample_body_message)
  then have "render_path p @ render_reason r =
        [CHR 0x27] @ ''users'' @ [CHR 0x27] @ '' -> item[1] -> '' @
        [CHR 0x27] @ ''id'' @ [CHR 0x27] @ '' -> Expected int, got str''"
    by (simp only: prod.inject simp_thms)
  with ff sample_body_fails show ?thesis by blast
qed

section \<open>Properties of the API endpoint validator\<close>

lemma probe_paths_filter:
  "probe_paths av probe paths =
     filter (\<lambda>p. case probe (head_request av p) of
                   Replied resp t \<Rightarrow> status_code resp < 404 | Failed e \<Rightarrow> False) paths"
  by (induction paths) (simp_all split: reply.splits)

lemma discovered_config_no_auth:
  "\<forall>cfg \<in> set (map discovered_config eps). \<not> authentication_required cfg"
  by (simp add: discovered_config_def)

lemma sample_validator_value:
  "sample_validator =
     \<lparr>av_base_url = ''http://h'', av_timeout = 10, av_sla_ms = 500,
      av_headers = [(''Content-Type'', ''application/json''), (''Accept'', ''application/json''),
                    (''Authorization'', ''Bearer secret-token'')]\<rparr>"
  by (simp add: sample_validator_def new_validator_def rstrip_def setdefault_def Let_def)

text \<open>
  C6, at an input where the code departs from the claim: the probe of the login path is
  answered with 405, which is not 404, and the path is not among the discovered ones.
\<close>

theorem discovery_drops_status_405:
  "login_only_service (head_request sample_validator ''/api/auth/login'') =
     Replied (status_response 405) 5 \<and>
   status_code (status_response 405) \<noteq> 404 \<and>
   ''/api/auth/login'' \<in> set api_common_paths \<and>
   discover_api_endpoints sample_validator login_only_service = [''/health'']"
  by (simp add: sample_validator_value discover_api_endpoints_def api_common_paths_def
      head_request_def login_only_service_def status_response_def)








section \<open>Properties of the environment validator\<close>

lemma check_variable_blank:
  "sr_tests (check_variable production [] e res) = sr_tests res @ [presence_test (fst e) (snd e)] \<and>
   sr_total (check_variable production [] e res) = sr_total res + 1 \<and>
   sr_error (check_variable production [] e res) = sr_error res"
  by (simp add: check_variable_def record_missing_def record_pass_def record_fail_def Let_def)

lemma check_variables_blank:
  "sr_tests (foldl (\<lambda>acc entry. check_variable production [] entry acc) res es) =
     sr_tests res @ map (\<lambda>e. presence_test (fst e) (snd e)) es \<and>
   sr_total (foldl (\<lambda>acc entry. check_variable production [] entry acc) res es) =
     sr_total res + int (length es) \<and>
   sr_error (foldl (\<lambda>acc entry. check_variable production [] entry acc) res es) = sr_error res"
  by (induction es arbitrary: res) (simp_all add: check_variable_blank)

lemma outline_presence:
  "outline (map (\<lambda>e. presence_test (fst e) (snd e)) es) =
     map (\<lambda>e. (''Variable presence: '' @ fst e, PStr (if required (snd e) then ''FAIL'' else ''PASS''))) es"
  by (simp add: outline_def presence_test_def status_test_def)

lemma check_section_blank:
  "outline (sr_tests (check_section production [] env_sections sections sec res)) =
     outline (sr_tests res) @
       (if fst sec \<in> set sections then
          (''Section check: '' @ fst sec,
           PStr (if fst sec \<in> set env_sections then ''PASS'' else ''WARNING'')) #
          map (\<lambda>e. (''Variable presence: '' @ fst e,
                     PStr (if required (snd e) then ''FAIL'' else ''PASS''))) (snd sec)
        else []) \<and>
   sr_total (check_section production [] env_sections sections sec res) - int (length (sr_tests (check_section production [] env_sections sections sec res))) =
     sr_total res - int (length (sr_tests res)) \<and>
   sr_error (check_section production [] env_sections sections sec res) = sr_error res"
proof (cases "fst sec \<in> set sections")
  case False
  then show ?thesis by (simp add: check_section_def)
next
  case True
  have o: "outline (xs @ ys) = outline xs @ outline ys" for xs ys
    by (simp add: outline_def)
  show ?thesis
    using True
    by (simp add: check_section_def Let_def check_variables_blank record_pass_def o
        outline_presence)
      (simp add: outline_def status_test_def presence_test_def)
qed

lemma check_sections_blank:
  "outline (sr_tests (foldl (\<lambda>acc sec. check_section production [] env_sections sections sec acc) res sch)) =
     outline (sr_tests res) @
       concat (map (\<lambda>sec.
          (''Section check: '' @ fst sec,
           PStr (if fst sec \<in> set env_sections then ''PASS'' else ''WARNING'')) #
          map (\<lambda>e. (''Variable presence: '' @ fst e,
                     PStr (if required (snd e) then ''FAIL'' else ''PASS''))) (snd sec))
         (filter (\<lambda>sec. fst sec \<in> set sections) sch)) \<and>
   sr_total (foldl (\<lambda>acc sec. check_section production [] env_sections sections sec acc) res sch) -
     int (length (sr_tests (foldl (\<lambda>acc sec. check_section production [] env_sections sections sec acc) res sch))) =
     sr_total res - int (length (sr_tests res)) \<and>
   sr_error (foldl (\<lambda>acc sec. check_section production [] env_sections sections sec acc) res sch) = sr_error res"
proof (induction sch arbitrary: res)
  case Nil
  then show ?case by simp
next
  case (Cons sec sch)
  show ?case
    using check_section_blank [of production env_sections sections sec res]
    by (simp add: Cons.IH)
qed

text \<open>
  C5, as amended: when the environment file does not exist, the checker returns at once
  with one FAIL test, a total of 1 and no further check. A file that exists and holds no
  variable, a blank one among them, is checked like any other: every section in scope
  gives its header test and every variable of it a "Variable presence" test, a FAIL when
  the variable is required.
\<close>

theorem missing_env_file_single_fail:
  "validate_env_file NoFile path rs =
     \<lparr>sr_passed = False, sr_total = 1, sr_passed_tests = 0, sr_failed_tests = 1,
      sr_tests = [status_test ''File existence check'' ''FAIL''
                    (''Environment file '' @ path @ '' does not exist'')],
      sr_error = None\<rparr> \<and>
   outline (sr_tests (validate_env_file (Loaded [] content) path rs)) =
     blank_file_outline content (case rs of None \<Rightarrow> map fst ENV_SCHEMA | Some r \<Rightarrow> r) \<and>
   sr_total (validate_env_file (Loaded [] content) path rs) =
     int (length (sr_tests (validate_env_file (Loaded [] content) path rs))) \<and>
   sr_error (validate_env_file (Loaded [] content) path rs) = None"
proof -
  let ?sections = "case rs of None \<Rightarrow> map fst ENV_SCHEMA | Some r \<Rightarrow> r"
  let ?done = "foldl (\<lambda>acc sec. check_section False [] (parse_env_sections content) ?sections sec acc)
                 empty_result ENV_SCHEMA"
  have loaded: "validate_env_file (Loaded [] content) path rs = ?done\<lparr>sr_passed := (sr_failed_tests ?done = 0)\<rparr>"
    by (simp add: validate_env_file_def Let_def lower_def)
  note blank = check_sections_blank [of False "parse_env_sections content" ?sections empty_result ENV_SCHEMA]
  have start: "sr_tests empty_result = []" "sr_total empty_result = 0" "sr_error empty_result = None"
    by (simp_all add: empty_result_def)
  have missing: "validate_env_file NoFile path rs =
     \<lparr>sr_passed = False, sr_total = 1, sr_passed_tests = 0, sr_failed_tests = 1,
      sr_tests = [status_test ''File existence check'' ''FAIL''
                    (''Environment file '' @ path @ '' does not exist'')],
      sr_error = None\<rparr>"
    by (simp add: validate_env_file_def empty_result_def Let_def)
  have names: "outline (sr_tests ?done) = blank_file_outline content ?sections"
    using blank by (simp add: start blank_file_outline_def outline_def)
  have total: "sr_total ?done = int (length (sr_tests ?done))"
    using blank by (simp add: start)
  have err: "sr_error ?done = None"
    using blank by (simp add: start)
  show ?thesis
    unfolding loaded using missing names total err by simp
qed

text \<open>
  The claim as stated fails for a blank file: with the sections the orchestrator asks
  for, an empty file that exists gives fifteen tests, three header warnings and twelve
  presence tests, eleven of them failed.
\<close>

lemma blank_file_sections: "parse_env_sections [] = []"
  by (simp add: parse_env_sections_def)

theorem blank_env_file_counterexample:
  "sr_total (validate_env_file (Loaded [] []) ''.env'' (Some orchestrator_sections)) = 15 \<and>
   length (sr_tests (validate_env_file (Loaded [] []) ''.env'' (Some orchestrator_sections))) = 15 \<and>
   sr_failed_tests (validate_env_file (Loaded [] []) ''.env'' (Some orchestrator_sections)) = 11 \<and>
   sr_error (validate_env_file (Loaded [] []) ''.env'' (Some orchestrator_sections)) = None"
  by (simp add: validate_env_file_def Let_def lower_def blank_file_sections ENV_SCHEMA_def
      orchestrator_sections_def check_section_def check_variable_def record_missing_def
      record_pass_def record_fail_def empty_result_def plain_rule_def)

section \<open>Every checker returns a result\<close>












section \<open>Exceptions of network and database calls\<close>





































text \<open>
  A scan of a service that answers the first request and then no other: the tests of the
  whole scan. The TLS connection and the request of the headers give FAIL tests, the CORS
  request a WARNING, the probes of the authentication endpoints nothing, and the last two
  requests PASS tests.
\<close>

lemma silent_scan_outline:
  "outline (sr_tests (run_security_scan plain_runtime sample_library ''https://h'' ''high''
                        True True True silent_scan_world)) =
     [(''Base URL accessibility check'', PStr ''PASS''),
      (''HTTPS check'', PStr ''PASS''),
      (''SSL/TLS configuration'', PStr ''FAIL''),
      (''Security headers check'', PStr ''FAIL''),
      (''Critical security header: Strict-Transport-Security'', PStr ''FAIL''),
      (''Critical security header: Content-Security-Policy'', PStr ''FAIL''),
      (''Critical security header: X-Content-Type-Options'', PStr ''FAIL''),
      (''CORS configuration check'', PStr ''WARNING''),
      (''Cookie security flags'', PStr ''PASS''),
      (''Information disclosure scan'', PStr ''PASS'')]"
  by (simp add: run_security_scan_def silent_scan_world_def timed_out_def ok_response_def
      ssl_phase_def headers_phase_def auth_phase_def closing_phase_def check_ssl_tls_def
      ssl_tests_def check_security_headers_def header_tests_def critical_headers_def
      check_cors_configuration_def cors_tests_def check_auth_endpoints_def
      AUTH_TEST_ENDPOINTS_def auth_endpoint_tests_def check_cookie_security_def cookie_tests_def
      check_sensitive_info_exposure_def exposure_tests_def record_pass_def record_fail_def
      record_only_def empty_result_def outline_def status_test_def Let_def)

text \<open>
  Not every exception stays inside its checker. The required-fields check of a response
  whose JSON body is \<^verbatim>\<open>null\<close> raises a \<^verbatim>\<open>TypeError\<close>, which \<^verbatim>\<open>validate_endpoint\<close> does not
  catch; and the logging checker lists the log directory outside any \<^verbatim>\<open>try\<close>, so that a
  directory that cannot be listed ends \<^verbatim>\<open>validate_logging\<close> with the exception.
\<close>

lemma required_fields_type_error_escapes:
  "validate_endpoint plain_runtime sample_validator fields_config null_world =
     Inl (TypeError (''argument of type '' @ quoted ''NoneType'' @ '' is not iterable''))"
  by (simp add: validate_endpoint_def Let_def null_world_def fields_config_def
      default_config_def status_response_def schema_tests_def schema_truthy_def py_in_def
      type_of_def type_name_def quoted_def)

lemma listing_error_escapes:
  "validate_logging lib (fs\<lparr>fs_isdir := \<lambda>p. True, fs_listdir := \<lambda>p. Inl e\<rparr>) log_dir config_file =
     Inl e"
  by (simp add: validate_logging_def check_log_files_def log_files_of_def Let_def)

end
